theory Spec2Isabelle
  imports Main
begin

section \<open>JavaScript values and errors\<close>

text \<open>
  JSON values as the master receives them in request bodies and directory entries.
  Numbers are kept as integers; nothing below computes with them.
\<close>

datatype json =
    JNull
  | JBool bool
  | JNum int
  | JStr string
  | JArr "json list"
  | JObj "(string \<times> json) list"

text \<open>The truth value JavaScript gives a value in \<^verbatim>\<open>if (v)\<close>.\<close>

fun truthy :: "json \<Rightarrow> bool" where
  "truthy JNull = False"
| "truthy (JBool b) = b"
| "truthy (JNum n) = (n \<noteq> 0)"
| "truthy (JStr s) = (s \<noteq> [])"
| "truthy (JArr xs) = True"
| "truthy (JObj kvs) = True"

text \<open>
  A property that may be absent: \<open>None\<close> is \<^verbatim>\<open>undefined\<close>. For a string property
  \<^verbatim>\<open>if (x.f)\<close> holds when the property is present and not the empty string.
\<close>

definition truthyS :: "string option \<Rightarrow> bool" where
  "truthyS v = (case v of None \<Rightarrow> False | Some s \<Rightarrow> s \<noteq> [])"

definition truthyJ :: "json option \<Rightarrow> bool" where
  "truthyJ v = (case v of None \<Rightarrow> False | Some j \<Rightarrow> truthy j)"

text \<open>
  Errors are values. The class says which constructor built the error
  (\<^verbatim>\<open>instanceof\<close>), \<open>httpCode\<close> is the property of that name, and the message is
  the format template of the source (the arguments formatted into it are left out,
  the literal text is what the claims speak about).
\<close>

datatype err_class =
    TypeErrorC
  | InvalidArgumentC
  | MissingParameterC
  | ResourceNotFoundC
  | InternalErrorC
  | NoSuchObjectC
  | OtherC

datatype error = Error (eclass: err_class) (httpCode: "nat option") (message: string)

abbreviation TypeError :: "string \<Rightarrow> error" where
  "TypeError m \<equiv> Error TypeErrorC None m"

abbreviation InvalidArgumentError :: "string \<Rightarrow> error" where
  "InvalidArgumentError m \<equiv> Error InvalidArgumentC (Some 409) m"

abbreviation MissingParameterError :: "string \<Rightarrow> error" where
  "MissingParameterError m \<equiv> Error MissingParameterC (Some 409) m"

abbreviation ResourceNotFoundError :: "string \<Rightarrow> error" where
  "ResourceNotFoundError m \<equiv> Error ResourceNotFoundC (Some 404) m"

abbreviation InternalError :: "string \<Rightarrow> error" where
  "InternalError m \<equiv> Error InternalErrorC (Some 500) m"

text \<open>Whether a message mentions a phrase: the phrase occurs in it as a substring.\<close>

fun starts_with :: "string \<Rightarrow> string \<Rightarrow> bool" where
  "starts_with s [] = True"
| "starts_with [] (c # cs) = False"
| "starts_with (d # ds) (c # cs) = (d = c \<and> starts_with ds cs)"

fun mentions :: "string \<Rightarrow> string \<Rightarrow> bool" where
  "mentions [] sub = (sub = [])"
| "mentions (d # ds) sub = (starts_with (d # ds) sub \<or> mentions ds sub)"

section \<open>The regular expressions of probes.js\<close>

definition is_lower_hex :: "char \<Rightarrow> bool" where
  "is_lower_hex c = (c \<in> set ''0123456789abcdef'')"

definition is_letter :: "char \<Rightarrow> bool" where
  "is_letter c = (c \<in> set ''abcdefghijklmnopqrstuvwxyzABCDEFGHIJKLMNOPQRSTUVWXYZ'')"

definition is_name_char :: "char \<Rightarrow> bool" where
  "is_name_char c = (is_letter c \<or> c \<in> set ''0123456789_.-'')"

text \<open>
  \<^verbatim>\<open>/^[0-9a-f]{8}-[0-9a-f]{4}-[0-9a-f]{4}-[0-9a-f]{4}-[0-9a-f]{12}$/\<close>:
  the groups of hexadecimal digits, in order, with a dash between two groups.
\<close>

fun hex_groups :: "nat list \<Rightarrow> string \<Rightarrow> bool" where
  "hex_groups [] s = False"
| "hex_groups [n] s = (length s = n \<and> list_all is_lower_hex s)"
| "hex_groups (n # m # ns) s =
     (list_all is_lower_hex (take n s) \<and> length (take n s) = n
      \<and> take 1 (drop n s) = ''-'' \<and> hex_groups (m # ns) (drop (Suc n) s))"

definition UUID_RE_test :: "string \<Rightarrow> bool" where
  "UUID_RE_test s = hex_groups [8, 4, 4, 4, 12] s"

text \<open>\<^verbatim>\<open>/^[a-zA-Z][a-zA-Z0-9_\.-]{0,31}$/\<close>\<close>

definition nameRegex_test :: "string \<Rightarrow> bool" where
  "nameRegex_test s =
     (case s of [] \<Rightarrow> False
      | c # cs \<Rightarrow> is_letter c \<and> length cs \<le> 31 \<and> list_all is_name_char cs)"

section \<open>The Probe model (master/lib/probes.js)\<close>

text \<open>
  The probe-type plugins. Only the registry (the keys \<^verbatim>\<open>logscan\<close> and
  \<^verbatim>\<open>machine-up\<close>) is among the files read here; what a plugin declares is a
  parameter: its \<^verbatim>\<open>runInGlobal\<close> flag and its \<^verbatim>\<open>validateConfig\<close>, which throws
  (\<open>Some message\<close>) or returns.
\<close>

record probe_type =
  runInGlobal :: bool
  validateConfig :: "json \<Rightarrow> string option"

text \<open>
  What the model takes from outside probes.js: the plugin registry, the JSON functions
  of the language (\<open>JSON_parse\<close> gives \<open>None\<close> where \<^verbatim>\<open>JSON.parse\<close> throws)
  and \<^verbatim>\<open>ldap.parseDN\<close>, which yields the list of relative distinguished names, each
  a list of attribute and value, or throws.
\<close>

type_synonym rdn = "(string \<times> string) list"

record env =
  plugins :: "string \<Rightarrow> probe_type option"
  JSON_parse :: "json \<Rightarrow> json option"
  JSON_stringify :: "json \<Rightarrow> string"
  ldap_parseDN :: "string option \<Rightarrow> error + rdn list"

text \<open>
  The \<^verbatim>\<open>data\<close> argument of the constructor. One object type serves both forms; the
  constructor tells them apart by \<^verbatim>\<open>data.objectclass\<close>.
\<close>

record probe_data =
  d_objectclass :: "string option"
  d_dn :: "string option"
  d_amonprobe :: "string option"
  d_name :: "string option"
  d_monitor :: "string option"
  d_user :: "string option"
  d_type :: "string option"
  d_config :: "json option"
  d_machine :: "string option"
  d_server :: "string option"
  d_global :: "json option"

text \<open>The raw (directory) attributes of a probe that the code reads.\<close>

record raw_probe =
  raw_amonprobe :: "string option"
  raw_type :: "string option"
  raw_objectclass :: "string option"
  raw_config :: "json option"
  raw_machine :: "string option"
  raw_server :: "string option"
  raw_global :: "json option"

record probe =
  p_dn :: "string option"
  p_user :: "string option"
  p_monitor :: "string option"
  p_raw :: raw_probe

definition Probe_objectclass :: string where
  "Probe_objectclass = ''amonprobe''"

text \<open>\<^verbatim>\<open>String(v)\<close> of an optional string, as a regular expression's test applies it.\<close>

definition js_String :: "string option \<Rightarrow> string" where
  "js_String v = (case v of None \<Rightarrow> ''undefined'' | Some s \<Rightarrow> s)"

text \<open>A single quote, for the messages that end in one.\<close>

definition sq :: string where
  "sq = [CHR 0x27]"

definition Probe_validateName :: "string option \<Rightarrow> error option" where
  "Probe_validateName nm =
     (if \<not> nameRegex_test (js_String nm)
      then Some (InvalidArgumentError (''%s name is invalid: '%s'' @ sq))
      else None)"

text \<open>The required fields, in the order of \<^verbatim>\<open>Object.keys(requiredFields)\<close>.\<close>

definition check_required :: "raw_probe \<Rightarrow> error option" where
  "check_required rw =
    (if \<not> truthyS (raw_amonprobe rw) then
       Some (MissingParameterError '''name' is a required parameter for a probe'')
     else if \<not> truthyS (raw_type rw) then
       Some (MissingParameterError '''type' is a required parameter for a probe'')
     else None)"

text \<open>One of \<^verbatim>\<open>machine\<close> or \<^verbatim>\<open>server\<close> is required.\<close>

definition check_target :: "raw_probe \<Rightarrow> error option" where
  "check_target rw =
    (if truthyS (raw_machine rw) \<and> truthyS (raw_server rw) then
       Some (InvalidArgumentError
         ''must specify only one of 'machine' or 'server' for a probe: %j'')
     else if truthyS (raw_machine rw) then
       (if \<not> UUID_RE_test (js_String (raw_machine rw))
        then Some (InvalidArgumentError (''invalid probe machine UUID: '%s'' @ sq))
        else None)
     else if truthyS (raw_server rw) then
       (if \<not> UUID_RE_test (js_String (raw_server rw))
        then Some (InvalidArgumentError (''invalid probe server UUID: '%s'' @ sq))
        else None)
     else
       Some (MissingParameterError
         ''must specify one of 'machine' or 'server' for a probe: %j''))"

text \<open>The probe's config, when there is one: parsed, then validated by the plugin.\<close>

definition check_config :: "env \<Rightarrow> probe_type \<Rightarrow> raw_probe \<Rightarrow> error option" where
  \<open>check_config E ProbeType rw =
    (if truthyJ (raw_config rw) then
       (case JSON_parse E (the (raw_config rw)) of
          None \<Rightarrow> Some (InvalidArgumentError ''probe config, %s, is invalid: %s'')
        | Some cfg \<Rightarrow>
            (case validateConfig ProbeType cfg of
               Some msg \<Rightarrow> Some (InvalidArgumentError ''probe config, %s, is invalid: "%s"'')
             | None \<Rightarrow> None))
     else None)\<close>

definition Probe_validate :: "env \<Rightarrow> raw_probe \<Rightarrow> error + raw_probe" where
  \<open>Probe_validate E rw =
    (case check_required rw of
       Some e \<Rightarrow> Inl e
     | None \<Rightarrow>
    (case check_target rw of
       Some e \<Rightarrow> Inl e
     | None \<Rightarrow>
    (case plugins E (js_String (raw_type rw)) of
       None \<Rightarrow> Inl (InvalidArgumentError ''probe type is invalid: "%s"'')
     | Some ProbeType \<Rightarrow>
    (case check_config E ProbeType rw of
       Some e \<Rightarrow> Inl e
     | None \<Rightarrow>
         Inr (if runInGlobal ProbeType
              then rw\<lparr>raw_global := Some (JBool True)\<rparr>
              else rw)))))\<close>

text \<open>
  \<^verbatim>\<open>Probe.parseDn\<close>: the third, second and first relative distinguished names give the
  user, the monitor and the name. Reading a property of a missing third one throws.
\<close>

record parsed_dn =
  pd_user :: "string option"
  pd_monitor :: "string option"
  pd_name :: "string option"

definition Probe_parseDn :: "env \<Rightarrow> string option \<Rightarrow> error + parsed_dn" where
  "Probe_parseDn E dn =
    (case ldap_parseDN E dn of
       Inl e \<Rightarrow> Inl e
     | Inr rdns \<Rightarrow>
         (if length rdns < 3 then Inl (TypeError ''Cannot read property of undefined'')
          else Inr \<lparr>pd_user = map_of (rdns ! 2) ''uuid'',
                    pd_monitor = map_of (rdns ! 1) ''amonmonitor'',
                    pd_name = map_of (rdns ! 0) ''amonprobe''\<rparr>))"

definition Probe_dn :: "string \<Rightarrow> string \<Rightarrow> string \<Rightarrow> string" where
  "Probe_dn usr mon nm =
     ''amonprobe='' @ nm @ '', amonmonitor='' @ mon @ '', uuid='' @ usr @ '', ou=users, o=smartdc''"

text \<open>
  The first half of the constructor: tell the two forms apart and build \<^verbatim>\<open>this.dn\<close>,
  \<^verbatim>\<open>this.user\<close>, \<^verbatim>\<open>this.monitor\<close> and \<^verbatim>\<open>raw\<close>. From the directory, \<^verbatim>\<open>raw\<close> is a copy
  of the data without its \<^verbatim>\<open>dn\<close>; from the public form it is built afresh.
\<close>

definition Probe_raw :: "env \<Rightarrow> probe_data \<Rightarrow> error + probe" where
  \<open>Probe_raw E data =
    (if truthyS (d_objectclass data) then
       (if d_objectclass data \<noteq> Some Probe_objectclass then
          Inl (TypeError ''invalid probe data: objectclass "%s" !== "%s"'')
        else
          (case Probe_parseDn E (d_dn data) of
             Inl e \<Rightarrow> Inl e
           | Inr parsed \<Rightarrow>
               Inr \<lparr>p_dn = d_dn data, p_user = pd_user parsed, p_monitor = pd_monitor parsed,
                    p_raw = \<lparr>raw_amonprobe = d_amonprobe data, raw_type = d_type data,
                             raw_objectclass = d_objectclass data, raw_config = d_config data,
                             raw_machine = d_machine data, raw_server = d_server data,
                             raw_global = d_global data\<rparr>\<rparr>))
     else if \<not> truthyS (d_name data) then
       Inl (TypeError ''invalid probe data: no "name": '')
     else if \<not> truthyS (d_monitor data) then
       Inl (TypeError ''invalid probe data: no "monitor": '')
     else if \<not> truthyS (d_user data) then
       Inl (TypeError ''invalid probe data: no "user": '')
     else
       Inr \<lparr>p_dn = Some (Probe_dn (js_String (d_user data)) (js_String (d_monitor data))
                            (js_String (d_name data))),
            p_user = d_user data, p_monitor = d_monitor data,
            p_raw = \<lparr>raw_amonprobe = d_name data, raw_type = d_type data,
                     raw_objectclass = Some Probe_objectclass,
                     raw_config = (if truthyJ (d_config data)
                                   then Some (JStr (JSON_stringify E (the (d_config data))))
                                   else None),
                     raw_machine = (if truthyS (d_machine data) then d_machine data else None),
                     raw_server = (if truthyS (d_server data) then d_server data else None),
                     raw_global = None\<rparr>\<rparr>)\<close>

text \<open>\<^verbatim>\<open>new Probe(app, data)\<close>: a thrown error is \<open>Inl\<close>.\<close>

definition Probe :: "env \<Rightarrow> probe_data \<Rightarrow> error + probe" where
  "Probe E data =
    (case Probe_raw E data of
       Inl e \<Rightarrow> Inl e
     | Inr this \<Rightarrow>
         (case Probe_validateName (raw_amonprobe (p_raw this)) of
            Some e \<Rightarrow> Inl e
          | None \<Rightarrow>
              (case Probe_validate E (p_raw this) of
                 Inl e \<Rightarrow> Inl e
               | Inr rw \<Rightarrow> Inr (this\<lparr>p_raw := rw\<rparr>))))"

text \<open>The getters the constructor defines.\<close>

definition get_name :: "probe \<Rightarrow> string option" where
  "get_name p = raw_amonprobe (p_raw p)"

definition get_type :: "probe \<Rightarrow> string option" where
  "get_type p = raw_type (p_raw p)"

definition get_machine :: "probe \<Rightarrow> string option" where
  "get_machine p = raw_machine (p_raw p)"

definition get_server :: "probe \<Rightarrow> string option" where
  "get_server p = raw_server (p_raw p)"

definition get_global :: "probe \<Rightarrow> json option" where
  "get_global p = raw_global (p_raw p)"

text \<open>
  The config getter parses \<^verbatim>\<open>raw.config\<close> (and keeps the result); it yields
  \<^verbatim>\<open>undefined\<close> when there is no config.
\<close>

definition get_config :: "env \<Rightarrow> probe \<Rightarrow> json option" where
  "get_config E p =
     (if \<not> truthyJ (raw_config (p_raw p)) then None
      else JSON_parse E (the (raw_config (p_raw p))))"

text \<open>\<^verbatim>\<open>Probe.prototype.serialize(priv)\<close>: the API view, an object of the public form.\<close>

definition serialize :: "env \<Rightarrow> probe \<Rightarrow> bool \<Rightarrow> probe_data" where
  "serialize E p priv =
     \<lparr>d_objectclass = None, d_dn = None, d_amonprobe = None,
      d_name = get_name p, d_monitor = p_monitor p, d_user = p_user p,
      d_type = get_type p,
      d_config = (if truthyJ (get_config E p) then get_config E p else None),
      d_machine = (if truthyS (get_machine p) then get_machine p else None),
      d_server = (if truthyS (get_server p) then get_server p else None),
      d_global = (if priv \<and> truthyJ (get_global p) then get_global p else None)\<rparr>"

section \<open>Authorizing a probe put (Probe.prototype.authorizePut)\<close>

text \<open>
  The services the authorization asks are defined outside the files read here and are
  parameters. Each answers through a callback \<^verbatim>\<open>(err, value)\<close>, kept as a pair:
  \<^verbatim>\<open>app.mapi.getMachine(user, machine, cb)\<close> (the error with its \<^verbatim>\<open>httpCode\<close>, and
  whether a machine came back), \<^verbatim>\<open>app.isOperator(user, cb)\<close> and
  \<^verbatim>\<open>app.serverExists(server, cb)\<close>.
\<close>

record mapi_error =
  me_httpCode :: "nat option"
  me_code :: string

record services =
  mapi_getMachine :: "string option \<Rightarrow> string option \<Rightarrow> mapi_error option \<times> bool"
  isOperator :: "string option \<Rightarrow> error option \<times> bool"
  serverExists :: "string option \<Rightarrow> error option \<times> bool"

text \<open>
  The three conditions of case 3. Each hands \<^verbatim>\<open>next\<close> an error text or nothing. Reading
  \<^verbatim>\<open>runInGlobal\<close> of a type that is not in the registry throws.
\<close>

definition isRunInGlobalOrErr :: "env \<Rightarrow> probe \<Rightarrow> error + string option" where
  "isRunInGlobalOrErr E self =
    (case plugins E (js_String (get_type self)) of
       None \<Rightarrow> Inl (TypeError ''Cannot read property of undefined'')
     | Some ProbeType \<Rightarrow>
         Inr (if runInGlobal ProbeType then None else Some ''not runInGlobal: ''))"

definition isExistingMachineOrErr :: "services \<Rightarrow> probe \<Rightarrow> string option" where
  "isExistingMachineOrErr A self =
    (case mapi_getMachine A (Some []) (get_machine self) of
       (err, machine) \<Rightarrow> if machine then None else Some ''no such machine: '')"

definition userIsOperatorOrErr :: "services \<Rightarrow> probe \<Rightarrow> string option" where
  "userIsOperatorOrErr A self =
    (case isOperator A (p_user self) of
       (err, isOp) \<Rightarrow>
         if err \<noteq> None then Some ''err determining if operator''
         else if isOp then None
         else Some ''not operator: '')"

text \<open>\<^verbatim>\<open>async.series(conditions3, ...)\<close>: in order, stopping at the first error.\<close>

definition conditions3 :: "env \<Rightarrow> services \<Rightarrow> probe \<Rightarrow> error + string option" where
  "conditions3 E A self =
    (case isRunInGlobalOrErr E self of
       Inl e \<Rightarrow> Inl e
     | Inr (Some m) \<Rightarrow> Inr (Some m)
     | Inr None \<Rightarrow>
         (case isExistingMachineOrErr A self of
            Some m \<Rightarrow> Inr (Some m)
          | None \<Rightarrow> Inr (userIsOperatorOrErr A self)))"

text \<open>
  The result is the error handed to the callback, \<open>None\<close> when the put is authorized.
  In the server branch the callback of \<^verbatim>\<open>serverExists\<close> tests the variable \<^verbatim>\<open>err\<close> of
  the enclosing callback, which is unset at that point, not its own \<^verbatim>\<open>$err\<close>.
\<close>

definition authorizePut :: "env \<Rightarrow> services \<Rightarrow> probe \<Rightarrow> error option" where
  "authorizePut E A self =
    (if truthyS (get_machine self) then
       (case mapi_getMachine A (p_user self) (get_machine self) of
          (None, machine) \<Rightarrow> None
        | (Some err, machine) \<Rightarrow>
            if me_httpCode err = Some 404 then
              (case conditions3 E A self of
                 Inl e \<Rightarrow> Some e
               | Inr (Some not3) \<Rightarrow>
                   Some (InvalidArgumentError
                     ''Invalid 'machine': machine '%s' does not exist or is not owned by user '%s'.'')
               | Inr None \<Rightarrow> None)
            else Some (InternalError ''Internal error authorizing probe put.''))
     else if truthyS (get_server self) then
       (case isOperator A (p_user self) of
          (err, isOp) \<Rightarrow>
            if err \<noteq> None then Some (InternalError ''Internal error authorizing probe put.'')
            else if \<not> isOp then
              Some (InvalidArgumentError
                ''Must be operator put a probe on a server (server=%s): user '%s' is not an operator.'')
            else
              (case serverExists A (get_server self) of
                 (err', exists) \<Rightarrow>
                   if err \<noteq> None then
                     Some (InternalError ''Internal error authorizing probe put.'')
                   else if \<not> exists then
                     Some (InvalidArgumentError '''server', %s, is invalid: no such server'')
                   else None))
     else Some (InternalError ''Internal error authorizing probe put.''))"

section \<open>The model helpers (ufdsmodel: get, list, delete)\<close>

text \<open>
  The helpers are generic in the model: its name, its constructor (which throws or
  yields an instance), \<^verbatim>\<open>serialize\<close> and the instance's \<^verbatim>\<open>dn\<close>. \<open>Model_parentDn\<close> is the
  DN under which the instance is listed.
\<close>

record ('d, 'i) Model =
  Model_name :: string
  Model_objectclass :: string
  Model_new :: "'d \<Rightarrow> error + 'i"
  Model_serialize :: "'i \<Rightarrow> 'd"
  Model_dn :: "'i \<Rightarrow> string"
  Model_parentDn :: "'i \<Rightarrow> string"

record search_opts =
  so_filter :: "string option"
  so_scope :: string

text \<open>
  The directory is defined outside the files read here: \<^verbatim>\<open>app.ufdsSearch\<close> answers with an
  error or the entries, \<^verbatim>\<open>app.ufdsDelete\<close> with an error or nothing, and leaves the
  directory in a new state.
\<close>

record ('u, 'd) directory =
  ufdsSearch :: "'u \<Rightarrow> string \<Rightarrow> search_opts \<Rightarrow> error + 'd list"
  ufdsDelete :: "'u \<Rightarrow> string \<Rightarrow> error option \<times> 'u"

text \<open>
  What a helper does to the outside, in order: cache and directory calls, warnings and
  errors logged. Logging at info and trace level is left out.
\<close>

datatype call =
    CacheGet string string
  | CacheSet string string
  | CacheDel string string
  | CacheInvalidateDelete string string
  | UfdsSearch string string
  | UfdsDelete string
  | LogWarn string
  | LogError string

text \<open>
  Modelled from the spec: the cache of the app, whose \<^verbatim>\<open>app.cacheGet\<close>,
  \<^verbatim>\<open>app.cacheSet\<close> and \<^verbatim>\<open>app.cacheDel\<close> the helpers call and which is defined outside
  the files read here. Keys are a scope and a key; a value is \<^verbatim>\<open>{err, data}\<close>. The get
  scopes hold one serialized item, the list scopes a list of them. Expiry and eviction are
  left out.
\<close>

record ('u, 'd) state =
  ufds :: 'u
  getCache :: "string \<times> string \<Rightarrow> (error option \<times> 'd option) option"
  listCache :: "string \<times> string \<Rightarrow> (error option \<times> 'd list option) option"
  trace :: "call list"

definition did :: "call list \<Rightarrow> ('u, 'd) state \<Rightarrow> ('u, 'd) state" where
  "did cs st = st\<lparr>trace := trace st @ cs\<rparr>"

text \<open>
  Modelled from the spec: \<^verbatim>\<open>app.cacheInvalidateDelete(Model.name, item)\<close>, defined
  outside the files read here. A delete invalidates the cache entry of the entity (get, at
  its DN) and of its list (at the parent DN).
\<close>

definition cacheInvalidateDelete ::
  "('d, 'i) Model \<Rightarrow> ('u, 'd) state \<Rightarrow> 'i \<Rightarrow> ('u, 'd) state" where
  "cacheInvalidateDelete M st item =
     did [CacheInvalidateDelete (Model_name M) (Model_dn M item)]
       (st\<lparr>getCache := (getCache st)((Model_name M @ ''Get'', Model_dn M item) := None),
           listCache := (listCache st)((Model_name M @ ''List'', Model_parentDn M item) := None)\<rparr>)"

subsection \<open>Outcomes, and the class \<^verbatim>\<open>restify.RESTError\<close>\<close>

text \<open>
  What becomes of a call that answers through a callback: it runs to its end and the
  callback gets a value (\<open>Done\<close>), or an error is thrown where nothing catches it
  (\<open>Uncaught\<close>): then the callback is never called and nothing that would have followed
  happens.
\<close>

datatype 'a outcome = Done 'a | Uncaught error

text \<open>
  The module \<^verbatim>\<open>restify\<close> is defined outside the files read here. The helpers read its
  property \<^verbatim>\<open>RESTError\<close>: \<open>None\<close> when the module exports no such name (restify 1.0 and
  later export \<^verbatim>\<open>RestError\<close>; the value read is then \<^verbatim>\<open>undefined\<close>), otherwise the class,
  given by its membership test.
\<close>

record restify =
  RESTError :: "(error \<Rightarrow> bool) option"

text \<open>
  \<^verbatim>\<open>err2 instanceof restify.RESTError\<close>: with \<^verbatim>\<open>undefined\<close> on the right the operator
  throws a TypeError.
\<close>

definition instanceof_RESTError :: "restify \<Rightarrow> error \<Rightarrow> error + bool" where
  "instanceof_RESTError R err2 =
     (case RESTError R of
        None \<Rightarrow> Inl (TypeError ''Right-hand side of instanceof is not callable'')
      | Some cls \<Rightarrow> Inr (cls err2))"

text \<open>
  The catch handler of an entry whose construction threw: the warning or error it logs,
  or the error thrown by its test.
\<close>

definition log_invalid :: "restify \<Rightarrow> error \<Rightarrow> error + call" where
  "log_invalid R err2 =
     (case instanceof_RESTError R err2 of
        Inl thrown \<Rightarrow> Inl thrown
      | Inr True \<Rightarrow> Inr (LogWarn ''Ignoring invalid %s (dn='%s'): %s'')
      | Inr False \<Rightarrow> Inr (LogError ''Unknown error with %s entry:''))"

subsection \<open>modelGet\<close>

definition cacheAndCallback_get ::
  "('d, 'i) Model \<Rightarrow> bool \<Rightarrow> string \<Rightarrow> ('u, 'd) state \<Rightarrow> error + 'i
     \<Rightarrow> (error + 'i) outcome \<times> ('u, 'd) state" where
  "cacheAndCallback_get M skipCache dn st r =
     (Done r,
      if \<not> skipCache then
        did [CacheSet (Model_name M @ ''Get'') dn]
          (st\<lparr>getCache := (getCache st)((Model_name M @ ''Get'', dn) \<mapsto>
                 (case r of Inl err \<Rightarrow> (Some err, None)
                          | Inr item \<Rightarrow> (None, Some (Model_serialize M item))))\<rparr>)
      else st)"

text \<open>
  The search and what follows it (the callback of \<^verbatim>\<open>app.ufdsSearch\<close>). An error thrown in
  the catch handler leaves the callback uncalled.
\<close>

definition modelGet_search ::
  "restify \<Rightarrow> ('d, 'i) Model \<Rightarrow> ('u, 'd) directory \<Rightarrow> ('u, 'd) state \<Rightarrow> string \<Rightarrow> bool
     \<Rightarrow> (error + 'i) outcome \<times> ('u, 'd) state" where
  "modelGet_search R M D st0 dn skipCache =
    (let st = did [UfdsSearch dn ''base''] st0 in
     case ufdsSearch D (ufds st) dn \<lparr>so_filter = None, so_scope = ''base''\<rparr> of
       Inl err \<Rightarrow>
         if httpCode err = Some 503 then (Done (Inl err), st)
         else if eclass err = NoSuchObjectC then
           cacheAndCallback_get M skipCache dn st (Inl (ResourceNotFoundError ''not found''))
         else cacheAndCallback_get M skipCache dn st (Inl err)
     | Inr entries \<Rightarrow>
         if length entries = 1 then
           (case Model_new M (hd entries) of
              Inl err2 \<Rightarrow>
                (case log_invalid R err2 of
                   Inl thrown \<Rightarrow> (Uncaught thrown, st)
                 | Inr logged \<Rightarrow> (Done (Inl (InternalError ''invalid entry'')), did [logged] st))
            | Inr item \<Rightarrow> cacheAndCallback_get M skipCache dn st (Inr item))
         else
           (Done (Inl (InternalError ''conflicting entries'')),
            did [LogError ''multiple hits in UFDS for one dn''] st))"

text \<open>
  The cache is read unless \<^verbatim>\<open>skipCache\<close>. Cached data that no longer constructs is
  dropped from the cache and the directory is asked.
\<close>

definition modelGet ::
  "restify \<Rightarrow> ('d, 'i) Model \<Rightarrow> ('u, 'd) directory \<Rightarrow> ('u, 'd) state \<Rightarrow> string \<Rightarrow> bool
     \<Rightarrow> (error + 'i) outcome \<times> ('u, 'd) state" where
  \<open>modelGet R M D st0 dn skipCache =
    (if \<not> skipCache then
       (let cacheScope = Model_name M @ ''Get'';
            st = did [CacheGet cacheScope dn] st0 in
        case getCache st (cacheScope, dn) of
          None \<Rightarrow> modelGet_search R M D st dn skipCache
        | Some (Some err, data) \<Rightarrow> (Done (Inl err), st)
        | Some (None, data) \<Rightarrow>
            (case (case data of None \<Rightarrow> Inl (TypeError ''"data" is required'')
                              | Some d \<Rightarrow> Model_new M d) of
               Inr item \<Rightarrow> (Done (Inr item), st)
             | Inl e \<Rightarrow>
                 modelGet_search R M D
                   (did [LogWarn ''error in cached data (cacheScope="%s", dn="%s")'',
                         CacheDel cacheScope dn]
                      (st\<lparr>getCache := (getCache st)((cacheScope, dn) := None)\<rparr>))
                   dn skipCache))
     else modelGet_search R M D st0 dn skipCache)\<close>

subsection \<open>modelList\<close>

text \<open>\<^verbatim>\<open>cached.data.map(function (d) { return new Model(app, d); })\<close> in a try block: the first throw ends it.\<close>

fun map_new :: "('d \<Rightarrow> error + 'i) \<Rightarrow> 'd list \<Rightarrow> error + 'i list" where
  "map_new f [] = Inr []"
| "map_new f (d # ds) =
     (case f d of
        Inl e \<Rightarrow> Inl e
      | Inr i \<Rightarrow> (case map_new f ds of Inl e \<Rightarrow> Inl e | Inr is \<Rightarrow> Inr (i # is)))"

text \<open>
  The loop over the entries found: an entry that constructs is pushed onto
  \<^verbatim>\<open>instances\<close>; for one that throws the catch handler runs, and the entry is left out.
  An error thrown by the catch handler ends the loop: it is the result (\<open>Inl\<close>).
\<close>

fun collect_instances ::
  "restify \<Rightarrow> ('d \<Rightarrow> error + 'i) \<Rightarrow> 'd list \<Rightarrow> 'i list \<Rightarrow> call list
     \<Rightarrow> error + 'i list \<times> call list" where
  "collect_instances R f [] instances logged = Inr (instances, logged)"
| "collect_instances R f (rawItem # rawItems) instances logged =
     (case f rawItem of
        Inr i \<Rightarrow> collect_instances R f rawItems (instances @ [i]) logged
      | Inl err2 \<Rightarrow>
          (case log_invalid R err2 of
             Inl thrown \<Rightarrow> Inl thrown
           | Inr l \<Rightarrow> collect_instances R f rawItems instances (logged @ [l])))"

definition cacheAndCallback_list ::
  "('d, 'i) Model \<Rightarrow> string \<Rightarrow> ('u, 'd) state \<Rightarrow> error + 'i list
     \<Rightarrow> (error + 'i list) outcome \<times> ('u, 'd) state" where
  "cacheAndCallback_list M parentDn st r =
     (Done r,
      did [CacheSet (Model_name M @ ''List'') parentDn]
        (st\<lparr>listCache := (listCache st)((Model_name M @ ''List'', parentDn) \<mapsto>
               (case r of Inl cErr \<Rightarrow> (Some cErr, None)
                        | Inr cItems \<Rightarrow> (None, Some (map (Model_serialize M) cItems))))\<rparr>))"

text \<open>
  The search and what follows it. When the catch handler throws, nothing was logged
  before (an earlier entry that did not construct would have thrown there), nothing is
  cached and the callback is not called.
\<close>

definition modelList_search ::
  "restify \<Rightarrow> ('d, 'i) Model \<Rightarrow> ('u, 'd) directory \<Rightarrow> ('u, 'd) state \<Rightarrow> string
     \<Rightarrow> (error + 'i list) outcome \<times> ('u, 'd) state" where
  "modelList_search R M D st0 parentDn =
    (let st = did [UfdsSearch parentDn ''sub''] st0 in
     case ufdsSearch D (ufds st) parentDn
            \<lparr>so_filter = Some (''(objectclass='' @ Model_objectclass M @ '')''),
             so_scope = ''sub''\<rparr> of
       Inl err \<Rightarrow>
         if httpCode err = Some 503 then (Done (Inl err), st)
         else cacheAndCallback_list M parentDn st (Inl err)
     | Inr rawItems \<Rightarrow>
         (case collect_instances R (Model_new M) rawItems [] [] of
            Inl thrown \<Rightarrow> (Uncaught thrown, st)
          | Inr (instances, logged) \<Rightarrow>
              cacheAndCallback_list M parentDn (did logged st) (Inr instances)))"

definition modelList ::
  "restify \<Rightarrow> ('d, 'i) Model \<Rightarrow> ('u, 'd) directory \<Rightarrow> ('u, 'd) state \<Rightarrow> string
     \<Rightarrow> (error + 'i list) outcome \<times> ('u, 'd) state" where
  "modelList R M D st0 parentDn =
    (let cacheScope = Model_name M @ ''List'';
         st = did [CacheGet cacheScope parentDn] st0 in
     case listCache st (cacheScope, parentDn) of
       None \<Rightarrow> modelList_search R M D st parentDn
     | Some (Some err, data) \<Rightarrow> (Done (Inl err), st)
     | Some (None, data) \<Rightarrow>
         (case (case data of None \<Rightarrow> Inl (TypeError ''Cannot read property of undefined'')
                           | Some ds \<Rightarrow> map_new (Model_new M) ds) of
            Inr items \<Rightarrow> (Done (Inr items), st)
          | Inl e \<Rightarrow>
              modelList_search R M D
                (did [LogWarn ''error in cached data (cacheScope='%s', cacheKey='%s'): %s'',
                      CacheDel cacheScope parentDn]
                   (st\<lparr>listCache := (listCache st)((cacheScope, parentDn) := None)\<rparr>))
                parentDn))"

subsection \<open>modelDelete\<close>

text \<open>
  The result: the error handed to the callback, \<open>None\<close> for a finished delete; or the
  error thrown while the entity was fetched.
\<close>

definition modelDelete ::
  "restify \<Rightarrow> ('d, 'i) Model \<Rightarrow> ('u, 'd) directory \<Rightarrow> ('u, 'd) state \<Rightarrow> string
     \<Rightarrow> error option outcome \<times> ('u, 'd) state" where
  "modelDelete R M D st0 dn =
    (case modelGet R M D st0 dn True of
       (Uncaught thrown, st) \<Rightarrow> (Uncaught thrown, st)
     | (Done (Inl getErr), st) \<Rightarrow> (Done (Some getErr), st)
     | (Done (Inr item), st) \<Rightarrow>
         (case ufdsDelete D (ufds st) dn of
            (delErr, u') \<Rightarrow>
              (let st' = did [UfdsDelete dn] (st\<lparr>ufds := u'\<rparr>) in
               case delErr of
                 Some e \<Rightarrow> (Done (Some e), st')
               | None \<Rightarrow> (Done None, cacheInvalidateDelete M st' item))))"

section \<open>The master app (master/lib/app.js)\<close>

subsection \<open>accountFromLogin\<close>

text \<open>\<^verbatim>\<open>/^[a-zA-Z][a-zA-Z0-9_\.@]+$/\<close>\<close>

definition VALID_LOGIN_CHARS_test :: "string \<Rightarrow> bool" where
  "VALID_LOGIN_CHARS_test s =
     (case s of [] \<Rightarrow> False
      | c # cs \<Rightarrow> is_letter c \<and> cs \<noteq> []
                  \<and> list_all (\<lambda>x. is_letter x \<or> x \<in> set ''0123456789_.@'') cs)"

text \<open>
  What the directory search emits after its entries: an \<^verbatim>\<open>error\<close> event, or an
  \<^verbatim>\<open>end\<close> event with a status, the entries collected before it.
\<close>

datatype 'a ldap_result = ResultError error | ResultEnd int "'a list"

text \<open>
  Modelled from the spec: the account cache (the \<^verbatim>\<open>Cache\<close> class of amon-common,
  defined outside the files read here) is a map from login to \<^verbatim>\<open>{err, account}\<close>,
  expiry and eviction left out.
\<close>

type_synonym 'a account_cache = "string \<Rightarrow> (error option \<times> 'a option) option"

text \<open>
  The result is what the callback receives and the cache after it; a thrown error is
  \<open>Inl\<close>. The error of the search call itself is not looked at by the source. The debug
  line logged before the accounts are counted is left out.
\<close>

definition accountFromLogin ::
  "(string \<Rightarrow> string \<Rightarrow> 'a ldap_result) \<Rightarrow> 'a account_cache \<Rightarrow> string
     \<Rightarrow> error + ((error option \<times> 'a option) \<times> 'a account_cache)" where
  "accountFromLogin search accountCache login =
    (if login = [] then Inl (TypeError ''login is required'')
     else if \<not> VALID_LOGIN_CHARS_test login then
       Inl (Error OtherC None ''invalid characters in login: '')
     else
       (case accountCache login of
          Some (Some err, account) \<Rightarrow> Inr ((Some err, None), accountCache)
        | Some (None, account) \<Rightarrow> Inr ((None, account), accountCache)
        | None \<Rightarrow>
            (let cacheAndCallback = (\<lambda>r. Inr (r, accountCache(login \<mapsto> r))) in
             case search ''o=smartdc'' (''(&(login='' @ login @ '')(objectclass=sdcperson))'') of
               ResultError err \<Rightarrow> cacheAndCallback (Some err, None)
             | ResultEnd status accounts \<Rightarrow>
                 if status \<noteq> 0 then
                   cacheAndCallback
                     (Some (Error OtherC None ''non-zero status from LDAP search: ''), None)
                 else
                   (case accounts of
                      [] \<Rightarrow> cacheAndCallback (None, None)
                    | [a] \<Rightarrow> cacheAndCallback (None, Some a)
                    | _ \<Rightarrow>
                        cacheAndCallback
                          (Some (Error OtherC None ''unexpected number of accounts (''), None)))))"

subsection \<open>Event dispatch: asyncForEach, notifyContact, processEvent\<close>

text \<open>
  What a function that answers through a callback does with it: it calls back, with an
  error or without; it returns without ever calling back; or it throws.
\<close>

datatype 'e answer = Answered "'e option" | Unanswered | Threw error

text \<open>
  \<^verbatim>\<open>asyncForEach(list, fn, cb)\<close>. The state is the counter \<^verbatim>\<open>c\<close>, \<^verbatim>\<open>errState\<close>, and the
  calls of \<^verbatim>\<open>cb\<close> made so far, each with its argument; \<open>asyncForEach_callback\<close> is the
  function handed to \<^verbatim>\<open>fn\<close> with each item.
\<close>

definition asyncForEach_callback ::
  "int \<times> 'e option \<times> 'e option list \<Rightarrow> 'e option \<Rightarrow> int \<times> 'e option \<times> 'e option list" where
  "asyncForEach_callback st er =
    (case st of (c, errState, cbs) \<Rightarrow>
       if errState \<noteq> None then st
       else if er \<noteq> None then (c, er, cbs @ [er])
       else if c - 1 = 0 then (c - 1, errState, cbs @ [None])
       else (c - 1, errState, cbs))"

text \<open>
  The items are taken in the order of the list, each \<^verbatim>\<open>fn(item, callback)\<close> with what it
  does to the outside. Nothing catches an error that \<^verbatim>\<open>fn\<close> throws: the run ends there,
  the later items are not reached and \<^verbatim>\<open>cb\<close> is not called again.
\<close>

fun asyncForEach_items ::
  "('a \<Rightarrow> 'e answer \<times> 'l list) \<Rightarrow> 'a list \<Rightarrow> int \<times> 'e option \<times> 'e option list \<Rightarrow> 'l list
     \<Rightarrow> 'e option list outcome \<times> 'l list" where
  "asyncForEach_items fn [] st calls0 = (Done (snd (snd st)), calls0)"
| "asyncForEach_items fn (item # items) st calls0 =
     (case fn item of
        (Threw thrown, calls) \<Rightarrow> (Uncaught thrown, calls0 @ calls)
      | (Unanswered, calls) \<Rightarrow> asyncForEach_items fn items st (calls0 @ calls)
      | (Answered er, calls) \<Rightarrow>
          asyncForEach_items fn items (asyncForEach_callback st er) (calls0 @ calls))"

text \<open>
  The first line calls \<^verbatim>\<open>cb()\<close> for an empty list and goes on. The result: the calls of
  \<^verbatim>\<open>cb\<close>, each with its argument, unless an error was thrown; and what was done to the
  outside.
\<close>

definition asyncForEach ::
  "'a list \<Rightarrow> ('a \<Rightarrow> 'e answer \<times> 'l list) \<Rightarrow> 'e option list outcome \<times> 'l list" where
  "asyncForEach list fn =
     asyncForEach_items fn list
       (int (length list), None, if list = [] then [None] else []) []"

record event =
  ev_probe_user :: string
  ev_probe_monitor :: string
  ev_probe_name :: string
  ev_probe_type :: string

record contact =
  c_name :: string
  c_medium :: string
  c_data :: string

record monitor =
  m_name :: string
  m_contacts :: "string list"

text \<open>
  What the dispatcher does to the outside: the plugin calls (medium, probe name, contact
  data, message), the warnings and the debug lines logged.
\<close>

datatype dcall =
    Notify string string string string
  | Warn string
  | Debug string

text \<open>
  The lookups and the plugins are parameters: \<^verbatim>\<open>Monitor.get\<close> and \<^verbatim>\<open>Contact.get\<close> as
  processEvent calls them (name first, then the user), and the plugins loaded from the
  configuration, by name: \<^verbatim>\<open>plugin.notify(name, data, message, callback)\<close> with what it
  does with its callback.
\<close>

type_synonym plugin = "string \<Rightarrow> string \<Rightarrow> string \<Rightarrow> error answer"

record dispatcher =
  Monitor_get :: "string \<Rightarrow> string \<Rightarrow> error + monitor"
  Contact_get :: "string \<Rightarrow> string \<Rightarrow> error + contact"
  loaded_plugins :: "string \<Rightarrow> plugin option"

text \<open>
  \<^verbatim>\<open>this.notificationPlugins\<close> is a plain object (\<^verbatim>\<open>{}\<close>) to which the loaded plugins are
  added under their names. Reading a property of it gives the loaded plugin of that
  name, else what every object inherits from \<^verbatim>\<open>Object.prototype\<close> under that name, else
  \<^verbatim>\<open>undefined\<close>.
\<close>

definition Object_prototype_names :: "string list" where
  "Object_prototype_names =
     [''constructor'', ''toString'', ''toLocaleString'', ''valueOf'', ''hasOwnProperty'',
      ''isPrototypeOf'', ''propertyIsEnumerable'', ''__proto__'', ''__defineGetter__'',
      ''__defineSetter__'', ''__lookupGetter__'', ''__lookupSetter__'']"

datatype property = Own plugin | Inherited | Undefined

definition notificationPlugins :: "dispatcher \<Rightarrow> string \<Rightarrow> property" where
  "notificationPlugins app medium =
     (case loaded_plugins app medium of
        Some plugin \<Rightarrow> Own plugin
      | None \<Rightarrow> if medium \<in> set Object_prototype_names then Inherited else Undefined)"

text \<open>
  \<^verbatim>\<open>notifyContact\<close>. An inherited property is truthy and has no \<^verbatim>\<open>notify\<close>: calling it
  throws a TypeError, and the callback is not called.
\<close>

definition notifyContact ::
  "dispatcher \<Rightarrow> string \<Rightarrow> monitor \<Rightarrow> contact \<Rightarrow> event \<Rightarrow> error answer \<times> dcall list" where
  "notifyContact app usr mon cnt ev =
    (case notificationPlugins app (c_medium cnt) of
       Undefined \<Rightarrow> (Answered (Some (Error OtherC None ''notification plugin '%s' not found'')), [])
     | Inherited \<Rightarrow> (Threw (TypeError ''plugin.notify is not a function''), [])
     | Own plugin \<Rightarrow>
         (plugin (ev_probe_name ev) (c_data cnt) ''XXX message'',
          [Notify (c_medium cnt) (ev_probe_name ev) (c_data cnt) ''XXX message'']))"

definition getAndNotifyContact ::
  "dispatcher \<Rightarrow> event \<Rightarrow> monitor \<Rightarrow> string \<Rightarrow> error answer \<times> dcall list" where
  "getAndNotifyContact app ev mon contactName =
    (let debug = Debug (''App.processEvent: notify contact '%s'' @ sq) in
     case Contact_get app contactName (ev_probe_user ev) of
       Inl err \<Rightarrow> (Answered None, [debug, Warn ''could not get contact '%s' (user '%s'): %s''])
     | Inr cnt \<Rightarrow>
         (case notifyContact app (ev_probe_user ev) mon cnt ev of
            (Answered err, calls) \<Rightarrow>
              (Answered None,
               debug # calls @ (if err \<noteq> None then [Warn ''could not notify contact: %s''] else []))
          | (Unanswered, calls) \<Rightarrow> (Unanswered, debug # calls)
          | (Threw thrown, calls) \<Rightarrow> (Threw thrown, debug # calls)))"

text \<open>
  The result: the calls of processEvent's \<^verbatim>\<open>callback\<close>, each with the error it was
  given (\<open>None\<close> for \<^verbatim>\<open>callback()\<close>), unless an error was thrown; and what was done to the
  outside.
\<close>

definition processEvent ::
  "dispatcher \<Rightarrow> event \<Rightarrow> error option list outcome \<times> dcall list" where
  "processEvent app ev =
    (let debug = Debug ''App.processEvent: %o'' in
     case Monitor_get app (ev_probe_monitor ev) (ev_probe_user ev) of
       Inl err \<Rightarrow> (Done [Some err], [debug])
     | Inr mon \<Rightarrow>
         (case asyncForEach (m_contacts mon) (getAndNotifyContact app ev mon) of
            (Done cbs, calls) \<Rightarrow> (Done (map (\<lambda>err. None) cbs), debug # calls)
          | (Uncaught thrown, calls) \<Rightarrow> (Uncaught thrown, debug # calls)))"


subsection \<open>The fake fault endpoint (apiFakeMonitorFault)\<close>



section \<open>The relay's agent probes endpoints (relay/lib/agentprobes.js)\<close>

text \<open>
  The data directory as \<^verbatim>\<open>fs.readFile\<close> sees it: reading a path gives an error with its
  \<^verbatim>\<open>code\<close>, or the content.
\<close>

datatype read_result = ReadError string | ReadData string

record relay_req =
  r_dataDir :: string
  r_targetType :: string
  r_targetUuid :: string

datatype body = Json json | Text string | RestError string

record response =
  res_code :: nat
  res_headers :: "(string \<times> string) list"
  res_body :: body

text \<open>\<^verbatim>\<open>path.resolve(dataDir, file)\<close> for an absolute data directory.\<close>

definition path_resolve :: "string \<Rightarrow> string \<Rightarrow> string" where
  "path_resolve dir file = dir @ ''/'' @ file"

definition headAgentProbes :: "(string \<Rightarrow> read_result) \<Rightarrow> relay_req \<Rightarrow> response" where
  "headAgentProbes readFile req =
    (let md5Path = path_resolve (r_dataDir req)
                     (r_targetType req @ ''-'' @ r_targetUuid req @ ''.json.content-md5'') in
     case readFile md5Path of
       ReadError code \<Rightarrow>
         if False \<and> code = ''ENOENT'' then
           \<lparr>res_code = 200, res_headers = [], res_body = Json (JArr [])\<rparr>
         else
           \<lparr>res_code = 500, res_headers = [], res_body = RestError ''InternalError''\<rparr>
     | ReadData data \<Rightarrow>
         \<lparr>res_code = 200, res_headers = [(''Content-MD5'', data)], res_body = Text []\<rparr>)"

text \<open>A stored body that is not JSON makes \<^verbatim>\<open>JSON.parse\<close> throw: \<open>Inl\<close>.\<close>

definition listAgentProbes :: "env \<Rightarrow> (string \<Rightarrow> read_result) \<Rightarrow> relay_req \<Rightarrow> error + response" where
  "listAgentProbes E readFile req =
    (let jsonPath = path_resolve (r_dataDir req)
                      (r_targetType req @ ''-'' @ r_targetUuid req @ ''.json'') in
     case readFile jsonPath of
       ReadError code \<Rightarrow>
         if code = ''ENOENT'' then
           Inr \<lparr>res_code = 200, res_headers = [], res_body = Json (JArr [])\<rparr>
         else
           Inr \<lparr>res_code = 500, res_headers = [], res_body = RestError ''InternalError''\<rparr>
     | ReadData data \<Rightarrow>
         (case JSON_parse E (JStr data) of
            None \<Rightarrow> Inl (Error OtherC None ''SyntaxError'')
          | Some parsed \<Rightarrow>
              Inr \<lparr>res_code = 200, res_headers = [], res_body = Json parsed\<rparr>))"

section \<open>Concrete data for the examples\<close>

definition alice :: string where
  "alice = ''aaaaaaaa-aaaa-aaaa-aaaa-aaaaaaaaaaaa''"

definition machine_uuid :: string where
  "machine_uuid = ''bbbbbbbb-bbbb-bbbb-bbbb-bbbbbbbbbbbb''"

definition server_uuid :: string where
  "server_uuid = ''cccccccc-cccc-cccc-cccc-cccccccccccc''"

definition example_dn :: string where
  "example_dn = Probe_dn alice ''whistle'' ''whistlelog''"

text \<open>
  A registry with the two keys of the plugin index: \<^verbatim>\<open>logscan\<close> runs in the zone,
  \<^verbatim>\<open>machine-up\<close> declares \<^verbatim>\<open>runInGlobal\<close>; both accept every config. The JSON
  functions know the empty object only, the DN parser the example DN only.
\<close>

definition example_env :: env where
  "example_env =
     \<lparr>plugins = [''logscan'' \<mapsto> \<lparr>runInGlobal = False, validateConfig = (\<lambda>cfg. None)\<rparr>,
                 ''machine-up'' \<mapsto> \<lparr>runInGlobal = True, validateConfig = (\<lambda>cfg. None)\<rparr>],
      JSON_parse = (\<lambda>j. if j = JStr ''{}'' then Some (JObj []) else None),
      JSON_stringify = (\<lambda>j. ''{}''),
      ldap_parseDN = (\<lambda>dn. if dn = Some example_dn
                           then Inr [[(''amonprobe'', ''whistlelog'')], [(''amonmonitor'', ''whistle'')],
                                     [(''uuid'', alice)], [(''ou'', ''users'')], [(''o'', ''smartdc'')]]
                           else Inl (Error OtherC None ''invalid DN''))\<rparr>"

definition public_probe :: probe_data where
  "public_probe =
     \<lparr>d_objectclass = None, d_dn = None, d_amonprobe = None,
      d_name = Some ''whistlelog'', d_monitor = Some ''whistle'', d_user = Some alice,
      d_type = Some ''logscan'', d_config = Some (JObj []),
      d_machine = Some machine_uuid, d_server = None, d_global = None\<rparr>"

definition server_probe :: probe_data where
  "server_probe = public_probe\<lparr>d_machine := None, d_server := Some server_uuid\<rparr>"

definition both_targets :: probe_data where
  "both_targets = public_probe\<lparr>d_server := Some server_uuid\<rparr>"

definition no_target :: probe_data where
  "no_target = public_probe\<lparr>d_machine := None\<rparr>"

definition both_targets_no_type :: probe_data where
  "both_targets_no_type = both_targets\<lparr>d_type := None\<rparr>"

text \<open>Directory entries: one of a \<^verbatim>\<open>runInGlobal\<close> type, two of a type that is not, carrying a \<^verbatim>\<open>global\<close> attribute.\<close>

definition directory_entry :: probe_data where
  "directory_entry =
     \<lparr>d_objectclass = Some ''amonprobe'', d_dn = Some example_dn,
      d_amonprobe = Some ''whistlelog'', d_name = None, d_monitor = None, d_user = None,
      d_type = Some ''machine-up'', d_config = Some (JStr ''{}''),
      d_machine = Some machine_uuid, d_server = None, d_global = Some (JStr ''true'')\<rparr>"



definition corrupt_entry :: probe_data where
  "corrupt_entry = directory_entry\<lparr>d_machine := None\<rparr>"

text \<open>Machine API answers: every lookup finds the machine; every lookup fails with a 500.\<close>

definition owner_services :: services where
  "owner_services =
     \<lparr>mapi_getMachine = (\<lambda>usr m. (None, True)),
      isOperator = (\<lambda>usr. (None, False)),
      serverExists = (\<lambda>s. (None, True))\<rparr>"

definition mapi_down :: services where
  "mapi_down =
     owner_services\<lparr>mapi_getMachine :=
       (\<lambda>usr m. (Some \<lparr>me_httpCode = Some 500, me_code = ''InternalError''\<rparr>, False))\<rparr>"

text \<open>The Probe model as the helpers take it.\<close>

definition Probe_parentDn :: "probe \<Rightarrow> string" where
  "Probe_parentDn p =
     ''amonmonitor='' @ js_String (p_monitor p) @ '', uuid='' @ js_String (p_user p)
       @ '', ou=users, o=smartdc''"

definition ProbeModel :: "env \<Rightarrow> (probe_data, probe) Model" where
  "ProbeModel E =
     \<lparr>Model_name = ''Probe'', Model_objectclass = Probe_objectclass,
      Model_new = Probe E, Model_serialize = (\<lambda>p. serialize E p False),
      Model_dn = (\<lambda>p. js_String (p_dn p)), Model_parentDn = Probe_parentDn\<rparr>"

text \<open>A directory that answers every search with the given entries and deletes without error.\<close>

definition directory_with :: "probe_data list \<Rightarrow> (unit, probe_data) directory" where
  "directory_with entries =
     \<lparr>ufdsSearch = (\<lambda>u dn opts. Inr entries), ufdsDelete = (\<lambda>u dn. (None, u))\<rparr>"

definition directory_failing :: "error \<Rightarrow> (unit, probe_data) directory" where
  "directory_failing err =
     \<lparr>ufdsSearch = (\<lambda>u dn opts. Inl err), ufdsDelete = (\<lambda>u dn. (Some err, u))\<rparr>"

definition empty_state :: "(unit, probe_data) state" where
  "empty_state = \<lparr>ufds = (), getCache = Map.empty, listCache = Map.empty, trace = []\<rparr>"

text \<open>
  The module as restify 1.0 and later define it, without the name \<^verbatim>\<open>RESTError\<close>; and as
  an earlier restify defines it, where the class holds the errors of the REST API.
\<close>

definition restify_1 :: restify where
  "restify_1 = \<lparr>RESTError = None\<rparr>"

definition restify_0 :: restify where
  "restify_0 =
     \<lparr>RESTError = Some (\<lambda>e. eclass e \<in> {InvalidArgumentC, MissingParameterC,
                                         ResourceNotFoundC, InternalErrorC})\<rparr>"

text \<open>
  A dispatcher with the email plugin loaded, whose server is down. The monitor
  \<^verbatim>\<open>whistle\<close> has a contact that does not resolve and one by email; the contact
  \<^verbatim>\<open>builtin\<close> has the medium \<^verbatim>\<open>constructor\<close>, for which no plugin is loaded, and the
  monitors \<^verbatim>\<open>first\<close> and \<^verbatim>\<open>last\<close> have it before and after the contact by email.
\<close>

definition example_dispatcher :: dispatcher where
  "example_dispatcher =
     \<lparr>Monitor_get = (\<lambda>nm usr.
         if nm = ''whistle'' then Inr \<lparr>m_name = ''whistle'', m_contacts = [''gone'', ''email'']\<rparr>
         else if nm = ''first'' then Inr \<lparr>m_name = ''first'', m_contacts = [''builtin'', ''email'']\<rparr>
         else if nm = ''last'' then Inr \<lparr>m_name = ''last'', m_contacts = [''email'', ''builtin'']\<rparr>
         else Inl (ResourceNotFoundError ''not found'')),
      Contact_get = (\<lambda>nm usr.
         if nm = ''email''
         then Inr \<lparr>c_name = ''email'', c_medium = ''email'', c_data = ''alice@example.com''\<rparr>
         else if nm = ''builtin''
         then Inr \<lparr>c_name = ''builtin'', c_medium = ''constructor'', c_data = ''alice''\<rparr>
         else Inl (ResourceNotFoundError ''not found'')),
      loaded_plugins =
        [''email'' \<mapsto> (\<lambda>nm d msg. Answered (Some (Error OtherC None ''smtp down'')))]\<rparr>"

definition whistle_event :: event where
  "whistle_event =
     \<lparr>ev_probe_user = alice, ev_probe_monitor = ''whistle'',
      ev_probe_name = ''whistlelog'', ev_probe_type = ''logscan''\<rparr>"


definition builtin_first_event :: event where
  "builtin_first_event = whistle_event\<lparr>ev_probe_monitor := ''first''\<rparr>"

definition builtin_last_event :: event where
  "builtin_last_event = whistle_event\<lparr>ev_probe_monitor := ''last''\<rparr>"

text \<open>The probes that the constructor builds from the example data.\<close>

definition whistlelog_probe :: probe where
  "whistlelog_probe =
     \<lparr>p_dn = Some example_dn, p_user = Some alice, p_monitor = Some ''whistle'',
      p_raw = \<lparr>raw_amonprobe = Some ''whistlelog'', raw_type = Some ''logscan'',
               raw_objectclass = Some ''amonprobe'', raw_config = Some (JStr ''{}''),
               raw_machine = Some machine_uuid, raw_server = None, raw_global = None\<rparr>\<rparr>"

definition directory_probe :: probe where
  "directory_probe =
     whistlelog_probe\<lparr>p_raw := (p_raw whistlelog_probe)
       \<lparr>raw_type := Some ''machine-up'', raw_global := Some (JBool True)\<rparr>\<rparr>"

definition stored_global_probe :: probe where
  "stored_global_probe =
     whistlelog_probe\<lparr>p_raw := (p_raw whistlelog_probe)\<lparr>raw_global := Some (JStr ''true'')\<rparr>\<rparr>"

section \<open>Notions used in the properties\<close>

subsection \<open>The Probe model\<close>

text \<open>
  The checks of the constructor that come before the one on \<^verbatim>\<open>machine\<close> and
  \<^verbatim>\<open>server\<close> pass: the form is recognised, the name matches the name rule, and the
  required name and type are there.
\<close>

definition reaches_target_check :: "env \<Rightarrow> probe_data \<Rightarrow> bool" where
  "reaches_target_check E data =
     (case Probe_raw E data of
        Inl e \<Rightarrow> False
      | Inr this \<Rightarrow> Probe_validateName (raw_amonprobe (p_raw this)) = None
                    \<and> check_required (p_raw this) = None)"

subsection \<open>authorizePut\<close>

text \<open>
  What the services say about a probe: the lookup of the machine for the probe's user
  answers without error (the user owns it) or with a 404; the lookup for any user finds
  the machine; the user is an operator; the server exists; the probe's type declares
  \<^verbatim>\<open>runInGlobal\<close>.
\<close>

definition owns_machine :: "services \<Rightarrow> probe \<Rightarrow> bool" where
  "owns_machine A self = (fst (mapi_getMachine A (p_user self) (get_machine self)) = None)"

definition machine_not_owned :: "services \<Rightarrow> probe \<Rightarrow> bool" where
  "machine_not_owned A self =
     (case fst (mapi_getMachine A (p_user self) (get_machine self)) of
        None \<Rightarrow> False
      | Some err \<Rightarrow> me_httpCode err = Some 404)"

definition machine_exists :: "services \<Rightarrow> probe \<Rightarrow> bool" where
  "machine_exists A self = snd (mapi_getMachine A (Some []) (get_machine self))"

definition user_is_operator :: "services \<Rightarrow> probe \<Rightarrow> bool" where
  "user_is_operator A self = (isOperator A (p_user self) = (None, True))"

definition server_exists :: "services \<Rightarrow> probe \<Rightarrow> bool" where
  "server_exists A self = snd (serverExists A (get_server self))"

definition declares_runInGlobal :: "env \<Rightarrow> probe \<Rightarrow> bool" where
  "declares_runInGlobal E self =
     (case plugins E (js_String (get_type self)) of
        None \<Rightarrow> False
      | Some ProbeType \<Rightarrow> runInGlobal ProbeType)"

text \<open>
  A lookup failed in a way the authorization does not expect: the machine lookup for the
  user with a code other than 404, or, for a server probe, the operator lookup.
\<close>

definition lookup_failed :: "services \<Rightarrow> probe \<Rightarrow> bool" where
  "lookup_failed A self =
     (if truthyS (get_machine self) then
        (case fst (mapi_getMachine A (p_user self) (get_machine self)) of
           None \<Rightarrow> False
         | Some err \<Rightarrow> me_httpCode err \<noteq> Some 404)
      else truthyS (get_server self) \<and> fst (isOperator A (p_user self)) \<noteq> None)"

definition whistle_server_probe :: probe where
  "whistle_server_probe =
     whistlelog_probe\<lparr>p_raw := (p_raw whistlelog_probe)
       \<lparr>raw_machine := None, raw_server := Some server_uuid\<rparr>\<rparr>"

subsection \<open>The model helpers\<close>

text \<open>The calls a helper has added to the trace.\<close>

definition new_calls :: "('u, 'd) state \<Rightarrow> ('u, 'd) state \<Rightarrow> call list" where
  "new_calls st st' = drop (length (trace st)) (trace st')"

fun is_log :: "call \<Rightarrow> bool" where
  "is_log (LogWarn m) = True"
| "is_log (LogError m) = True"
| "is_log c = False"

fun is_cache_write :: "call \<Rightarrow> bool" where
  "is_cache_write (CacheSet scope k) = True"
| "is_cache_write c = False"

text \<open>The error modelGet reports for an error of the directory search.\<close>

definition reported :: "error \<Rightarrow> error" where
  "reported err =
     (if eclass err = NoSuchObjectC then ResourceNotFoundError ''not found'' else err)"

text \<open>
  The entries of a list that construct, as instances and in order, and the errors of
  those that do not.
\<close>

definition constructed :: "('d \<Rightarrow> error + 'i) \<Rightarrow> 'd list \<Rightarrow> 'i list" where
  "constructed f ds = concat (map (\<lambda>d. case f d of Inl e \<Rightarrow> [] | Inr i \<Rightarrow> [i]) ds)"

definition rejected :: "('d \<Rightarrow> error + 'i) \<Rightarrow> 'd list \<Rightarrow> error list" where
  "rejected f ds = concat (map (\<lambda>d. case f d of Inl e \<Rightarrow> [e] | Inr i \<Rightarrow> []) ds)"

text \<open>
  The list cache answers a list request: it holds an error for the parent DN, or data
  of which every item constructs. Otherwise modelList asks the directory.
\<close>

definition list_cache_answers ::
  "('d, 'i) Model \<Rightarrow> ('u, 'd) state \<Rightarrow> string \<Rightarrow> bool" where
  "list_cache_answers M st parentDn =
     (case listCache st (Model_name M @ ''List'', parentDn) of
        None \<Rightarrow> False
      | Some (Some err, data) \<Rightarrow> True
      | Some (None, None) \<Rightarrow> False
      | Some (None, Some ds) \<Rightarrow>
          (case map_new (Model_new M) ds of Inl e \<Rightarrow> False | Inr items \<Rightarrow> True))"

text \<open>Errors of the directory for the examples: unavailable (503), and no such object.\<close>

definition unavailable :: error where
  "unavailable = Error OtherC (Some 503) ''directory unavailable''"

definition no_such_object :: error where
  "no_such_object = Error NoSuchObjectC None ''no such object''"

text \<open>
  What the catch handler of an invalid entry logs where \<^verbatim>\<open>restify.RESTError\<close> is the
  class given, and the error its test throws where the module exports no such class.
\<close>

definition logged_as :: "(error \<Rightarrow> bool) \<Rightarrow> error \<Rightarrow> call" where
  "logged_as cls err2 =
     (if cls err2 then LogWarn ''Ignoring invalid %s (dn='%s'): %s''
      else LogError ''Unknown error with %s entry:'')"

definition instanceof_TypeError :: error where
  "instanceof_TypeError = TypeError ''Right-hand side of instanceof is not callable''"

subsection \<open>The event dispatch\<close>

text \<open>
  A contact name that \<^verbatim>\<open>getAndNotifyContact\<close> answers for: the contact does not resolve,
  or nothing is found under its medium, or a plugin is loaded under its medium and calls
  back. What is left: a medium that names an inherited property, and a plugin that
  throws or never calls back.
\<close>

definition calls_back :: "dispatcher \<Rightarrow> event \<Rightarrow> string \<Rightarrow> bool" where
  "calls_back app ev contactName =
     (case Contact_get app contactName (ev_probe_user ev) of
        Inl err \<Rightarrow> True
      | Inr cnt \<Rightarrow>
          (case notificationPlugins app (c_medium cnt) of
             Undefined \<Rightarrow> True
           | Inherited \<Rightarrow> False
           | Own plugin \<Rightarrow>
               (case plugin (ev_probe_name ev) (c_data cnt) ''XXX message'' of
                  Answered e \<Rightarrow> True
                | Unanswered \<Rightarrow> False
                | Threw e \<Rightarrow> False)))"

section \<open>Properties of the Probe model\<close>

lemma Probe_raw_machine:
  "Probe_raw E data = Inr this \<Longrightarrow> truthyS (raw_machine (p_raw this)) = truthyS (d_machine data)"
  by (auto simp: Probe_raw_def truthyS_def split: if_splits sum.splits)

lemma Probe_raw_server:
  "Probe_raw E data = Inr this \<Longrightarrow> truthyS (raw_server (p_raw this)) = truthyS (d_server data)"
  by (auto simp: Probe_raw_def truthyS_def split: if_splits sum.splits)

lemma Probe_validate_fields:
  "Probe_validate E rw = Inr rw' \<Longrightarrow>
     raw_machine rw' = raw_machine rw \<and> raw_server rw' = raw_server rw
     \<and> raw_amonprobe rw' = raw_amonprobe rw \<and> raw_type rw' = raw_type rw
     \<and> raw_config rw' = raw_config rw \<and> raw_objectclass rw' = raw_objectclass rw"
  by (auto simp: Probe_validate_def split: option.splits if_splits)

lemma Probe_validate_target:
  "Probe_validate E rw = Inr rw' \<Longrightarrow> truthyS (raw_machine rw) \<noteq> truthyS (raw_server rw)"
  by (auto simp: Probe_validate_def check_target_def split: option.splits if_splits)

lemma Probe_validate_both:
  "check_required rw = None \<Longrightarrow> truthyS (raw_machine rw) \<Longrightarrow> truthyS (raw_server rw) \<Longrightarrow>
   Probe_validate E rw = Inl (InvalidArgumentError
         ''must specify only one of 'machine' or 'server' for a probe: %j'')"
  by (simp add: Probe_validate_def check_target_def)

lemma Probe_validate_neither:
  "check_required rw = None \<Longrightarrow> \<not> truthyS (raw_machine rw) \<Longrightarrow> \<not> truthyS (raw_server rw) \<Longrightarrow>
   Probe_validate E rw = Inl (MissingParameterError
         ''must specify one of 'machine' or 'server' for a probe: %j'')"
  by (simp add: Probe_validate_def check_target_def)

lemma Probe_Inr_iff:
  "Probe E data = Inr p \<longleftrightarrow>
     (\<exists>this rw. Probe_raw E data = Inr this
        \<and> Probe_validateName (raw_amonprobe (p_raw this)) = None
        \<and> Probe_validate E (p_raw this) = Inr rw \<and> p = this\<lparr>p_raw := rw\<rparr>)"
  by (auto simp: Probe_def split: sum.splits option.splits)

lemma Probe_target:
  assumes "Probe E data = Inr p"
  shows "truthyS (get_machine p) \<noteq> truthyS (get_server p)"
    and "truthyS (d_machine data) \<noteq> truthyS (d_server data)"
proof -
  from assms obtain this rw where r: "Probe_raw E data = Inr this"
    and v: "Probe_validate E (p_raw this) = Inr rw" and p: "p = this\<lparr>p_raw := rw\<rparr>"
    unfolding Probe_Inr_iff by blast
  from Probe_validate_target[OF v] Probe_validate_fields[OF v]
  show "truthyS (get_machine p) \<noteq> truthyS (get_server p)"
    by (simp add: p get_machine_def get_server_def)
  from Probe_validate_target[OF v] Probe_raw_machine[OF r] Probe_raw_server[OF r]
  show "truthyS (d_machine data) \<noteq> truthyS (d_server data)" by simp
qed

lemma Probe_reaches_both:
  assumes "reaches_target_check E data" "truthyS (d_machine data)" "truthyS (d_server data)"
  shows "Probe E data = Inl (InvalidArgumentError
         ''must specify only one of 'machine' or 'server' for a probe: %j'')"
proof -
  from assms(1) obtain this where r: "Probe_raw E data = Inr this"
    and n: "Probe_validateName (raw_amonprobe (p_raw this)) = None"
    and c: "check_required (p_raw this) = None"
    by (auto simp: reaches_target_check_def split: sum.splits)
  have "Probe_validate E (p_raw this) = Inl (InvalidArgumentError
         ''must specify only one of 'machine' or 'server' for a probe: %j'')"
    using Probe_validate_both[OF c] Probe_raw_machine[OF r] Probe_raw_server[OF r] assms by simp
  then show ?thesis by (simp add: Probe_def r n)
qed

lemma Probe_reaches_neither:
  assumes "reaches_target_check E data" "\<not> truthyS (d_machine data)" "\<not> truthyS (d_server data)"
  shows "Probe E data = Inl (MissingParameterError
         ''must specify one of 'machine' or 'server' for a probe: %j'')"
proof -
  from assms(1) obtain this where r: "Probe_raw E data = Inr this"
    and n: "Probe_validateName (raw_amonprobe (p_raw this)) = None"
    and c: "check_required (p_raw this) = None"
    by (auto simp: reaches_target_check_def split: sum.splits)
  have "Probe_validate E (p_raw this) = Inl (MissingParameterError
         ''must specify one of 'machine' or 'server' for a probe: %j'')"
    using Probe_validate_neither[OF c] Probe_raw_machine[OF r] Probe_raw_server[OF r] assms by simp
  then show ?thesis by (simp add: Probe_def r n)
qed

lemma mentions_only_one:
  "mentions ''must specify only one of 'machine' or 'server' for a probe: %j'' ''only one''"
  by simp

lemma mentions_machine_or_server:
  "mentions ''must specify one of 'machine' or 'server' for a probe: %j'' ('''machine' or 'server'' @ sq)"
  by (simp add: sq_def)

text \<open>
  C1 (as amended). A probe that the constructor accepts, from either form, has exactly one
  of \<^verbatim>\<open>machine\<close> and \<^verbatim>\<open>server\<close> non-empty. Data with both set, or with neither, never
  constructs; when the earlier checks of the constructor pass, both set fails with
  InvalidArgument (409) whose message mentions "only one", and neither set fails with
  MissingParameter (409) whose message mentions 'machine' or 'server'.
\<close>

theorem Probe_one_of_machine_server:
  "(\<forall>p. Probe E data = Inr p \<longrightarrow> truthyS (get_machine p) \<noteq> truthyS (get_server p))
   \<and> (truthyS (d_machine data) \<and> truthyS (d_server data) \<longrightarrow>
        (\<exists>e. Probe E data = Inl e
           \<and> (reaches_target_check E data \<longrightarrow>
                eclass e = InvalidArgumentC \<and> httpCode e = Some 409
                \<and> mentions (message e) ''only one'')))
   \<and> (\<not> truthyS (d_machine data) \<and> \<not> truthyS (d_server data) \<longrightarrow>
        (\<exists>e. Probe E data = Inl e
           \<and> (reaches_target_check E data \<longrightarrow>
                eclass e = MissingParameterC \<and> httpCode e = Some 409
                \<and> mentions (message e) ('''machine' or 'server'' @ sq))))"
proof (intro conjI allI impI)
  fix p assume "Probe E data = Inr p"
  then show "truthyS (get_machine p) \<noteq> truthyS (get_server p)" by (rule Probe_target)
next
  assume b: "truthyS (d_machine data) \<and> truthyS (d_server data)"
  obtain e where e: "Probe E data = Inl e"
    using Probe_target(2)[of E data] b by (cases "Probe E data") auto
  have "reaches_target_check E data \<Longrightarrow> eclass e = InvalidArgumentC \<and> httpCode e = Some 409
                \<and> mentions (message e) ''only one''"
    using Probe_reaches_both[of E data] b e mentions_only_one by auto
  with e show "\<exists>e. Probe E data = Inl e
           \<and> (reaches_target_check E data \<longrightarrow>
                eclass e = InvalidArgumentC \<and> httpCode e = Some 409
                \<and> mentions (message e) ''only one'')" by blast
next
  assume b: "\<not> truthyS (d_machine data) \<and> \<not> truthyS (d_server data)"
  obtain e where e: "Probe E data = Inl e"
    using Probe_target(2)[of E data] b by (cases "Probe E data") auto
  have "reaches_target_check E data \<Longrightarrow> eclass e = MissingParameterC \<and> httpCode e = Some 409
                \<and> mentions (message e) ('''machine' or 'server'' @ sq)"
    using Probe_reaches_neither[of E data] b e mentions_machine_or_server by auto
  with e show "\<exists>e. Probe E data = Inl e
           \<and> (reaches_target_check E data \<longrightarrow>
                eclass e = MissingParameterC \<and> httpCode e = Some 409
                \<and> mentions (message e) ('''machine' or 'server'' @ sq))" by blast
qed


lemma nameRegex_whistlelog: "nameRegex_test ''whistlelog''"
  by (simp add: nameRegex_test_def is_letter_def is_name_char_def)

lemma UUID_machine: "UUID_RE_test machine_uuid"
  by (simp add: UUID_RE_test_def machine_uuid_def is_lower_hex_def)

lemma UUID_server: "UUID_RE_test server_uuid"
  by (simp add: UUID_RE_test_def server_uuid_def is_lower_hex_def)

lemma reaches_both_targets: "reaches_target_check example_env both_targets"
  by (simp add: reaches_target_check_def Probe_raw_def both_targets_def public_probe_def
      truthyS_def truthyJ_def Probe_validateName_def js_String_def nameRegex_whistlelog
      check_required_def alice_def)

text \<open>
  C1 as stated fails: the required fields are checked before the target. Public data with
  both \<^verbatim>\<open>machine\<close> and \<^verbatim>\<open>server\<close> set and no \<^verbatim>\<open>type\<close> fails with MissingParameter for
  the type, not with InvalidArgument, and the message does not mention "only one".
\<close>

theorem Probe_both_no_type:
  "truthyS (d_machine both_targets_no_type) \<and> truthyS (d_server both_targets_no_type)
   \<and> Probe example_env both_targets_no_type
       = Inl (MissingParameterError '''type' is a required parameter for a probe'')
   \<and> eclass (MissingParameterError '''type' is a required parameter for a probe'') \<noteq> InvalidArgumentC
   \<and> \<not> mentions '''type' is a required parameter for a probe'' ''only one''"
  by (simp add: Probe_def Probe_raw_def both_targets_no_type_def both_targets_def public_probe_def
      truthyS_def truthyJ_def Probe_validateName_def js_String_def nameRegex_whistlelog
      check_required_def alice_def Probe_validate_def machine_uuid_def server_uuid_def)



lemma uuid_nonempty: "machine_uuid \<noteq> []" "server_uuid \<noteq> []" "alice \<noteq> []"
  by (simp_all add: machine_uuid_def server_uuid_def alice_def)

lemmas probe_eval = uuid_nonempty
  Probe_def Probe_raw_def Probe_parseDn_def Probe_validateName_def Probe_validate_def
  check_required_def check_target_def check_config_def Probe_objectclass_def
  truthyS_def truthyJ_def js_String_def nameRegex_whistlelog UUID_machine UUID_server
  example_env_def

lemma Probe_public_probe:
  "Probe example_env public_probe =
     Inr whistlelog_probe"
  by (simp add: probe_eval public_probe_def example_dn_def whistlelog_probe_def)

lemma reaches_no_target: "reaches_target_check example_env no_target"
  by (simp add: reaches_target_check_def Probe_raw_def no_target_def public_probe_def
      truthyS_def truthyJ_def Probe_validateName_def js_String_def nameRegex_whistlelog
      check_required_def alice_def)

text \<open>
  C1, at concrete data: the example probe constructs with a machine and no server; the
  same data with a server added reaches the target check and fails with InvalidArgument;
  without a machine it fails with MissingParameter.
\<close>

theorem Probe_one_of_machine_server_witness:
  "(\<exists>p. Probe example_env public_probe = Inr p
        \<and> truthyS (get_machine p) \<noteq> truthyS (get_server p))
   \<and> truthyS (d_machine both_targets) \<and> truthyS (d_server both_targets)
   \<and> reaches_target_check example_env both_targets
   \<and> (\<exists>e. Probe example_env both_targets = Inl e \<and> eclass e = InvalidArgumentC
          \<and> httpCode e = Some 409 \<and> mentions (message e) ''only one'')
   \<and> \<not> truthyS (d_machine no_target) \<and> \<not> truthyS (d_server no_target)
   \<and> reaches_target_check example_env no_target
   \<and> (\<exists>e. Probe example_env no_target = Inl e \<and> eclass e = MissingParameterC
          \<and> httpCode e = Some 409 \<and> mentions (message e) ('''machine' or 'server'' @ sq))"
proof -
  have b: "truthyS (d_machine both_targets) \<and> truthyS (d_server both_targets)"
    by (simp add: both_targets_def public_probe_def truthyS_def machine_uuid_def server_uuid_def)
  have n: "\<not> truthyS (d_machine no_target) \<and> \<not> truthyS (d_server no_target)"
    by (simp add: no_target_def public_probe_def truthyS_def)
  show ?thesis
    using Probe_one_of_machine_server[of example_env public_probe]
      Probe_one_of_machine_server[of example_env both_targets]
      Probe_one_of_machine_server[of example_env no_target]
      b n reaches_both_targets reaches_no_target Probe_public_probe
    by auto
qed




lemma Probe_directory_entry:
  "Probe example_env directory_entry =
     Inr directory_probe"
  by (simp add: probe_eval directory_entry_def directory_probe_def whistlelog_probe_def)









lemma Probe_validate_Inr:
  "Probe_validate E rw = Inr rw' \<Longrightarrow>
     \<exists>T. check_required rw = None \<and> check_target rw = None
        \<and> plugins E (js_String (raw_type rw)) = Some T
        \<and> check_config E T rw = None
        \<and> rw' = (if runInGlobal T then rw\<lparr>raw_global := Some (JBool True)\<rparr> else rw)"
  by (auto simp: Probe_validate_def split: option.splits)

lemma check_required_cong:
  "raw_amonprobe a = raw_amonprobe b \<Longrightarrow> raw_type a = raw_type b \<Longrightarrow>
   check_required a = check_required b"
  by (simp add: check_required_def)

lemma check_target_cong:
  "raw_machine a = raw_machine b \<Longrightarrow> raw_server a = raw_server b \<Longrightarrow>
   check_target a = check_target b"
  by (simp add: check_target_def)

lemma check_config_cong:
  "raw_config a = raw_config b \<Longrightarrow> check_config E T a = check_config E T b"
  by (simp add: check_config_def)

lemma Probe_validated_raw:
  assumes "Probe E data = Inr p"
  shows "\<exists>T. Probe_validateName (raw_amonprobe (p_raw p)) = None
           \<and> check_required (p_raw p) = None \<and> check_target (p_raw p) = None
           \<and> plugins E (js_String (raw_type (p_raw p))) = Some T
           \<and> check_config E T (p_raw p) = None
           \<and> (runInGlobal T \<longrightarrow> raw_global (p_raw p) = Some (JBool True))"
proof -
  from assms obtain this rw where n: "Probe_validateName (raw_amonprobe (p_raw this)) = None"
    and v: "Probe_validate E (p_raw this) = Inr rw" and p: "p = this\<lparr>p_raw := rw\<rparr>"
    unfolding Probe_Inr_iff by blast
  from Probe_validate_Inr[OF v] obtain T where
    rq: "check_required (p_raw this) = None" and ct: "check_target (p_raw this) = None"
    and T: "plugins E (js_String (raw_type (p_raw this))) = Some T"
    and cc: "check_config E T (p_raw this) = None"
    and rw: "rw = (if runInGlobal T then (p_raw this)\<lparr>raw_global := Some (JBool True)\<rparr>
                   else p_raw this)"
    by blast
  have same: "raw_amonprobe rw = raw_amonprobe (p_raw this)" "raw_type rw = raw_type (p_raw this)"
    "raw_machine rw = raw_machine (p_raw this)" "raw_server rw = raw_server (p_raw this)"
    "raw_config rw = raw_config (p_raw this)"
    by (simp_all add: rw)
  have "check_required rw = None" using rq check_required_cong[OF same(1,2)] by simp
  moreover have "check_target rw = None" using ct check_target_cong[OF same(3,4)] by simp
  moreover have "check_config E T rw = None" using cc check_config_cong[OF same(5)] by simp
  moreover have "plugins E (js_String (raw_type rw)) = Some T" using T same(2) by simp
  moreover have "Probe_validateName (raw_amonprobe rw) = None" using n same(1) by simp
  moreover have "runInGlobal T \<longrightarrow> raw_global rw = Some (JBool True)" by (simp add: rw)
  ultimately show ?thesis by (auto simp: p)
qed





lemma get_config_examples:
  "get_config example_env directory_probe = Some (JObj [])"
  "get_config example_env stored_global_probe = Some (JObj [])"
  by (simp_all add: get_config_def directory_probe_def stored_global_probe_def
      whistlelog_probe_def truthyJ_def example_env_def)

lemma serialize_directory_probe:
  "serialize example_env directory_probe True =
     public_probe\<lparr>d_type := Some ''machine-up'', d_global := Some (JBool True)\<rparr>"
  by (simp add: serialize_def get_config_examples)
    (simp add: directory_probe_def whistlelog_probe_def public_probe_def get_name_def
      get_type_def get_machine_def get_server_def get_global_def truthyJ_def truthyS_def
      uuid_nonempty)






section \<open>Properties of authorizePut\<close>

lemma authorizePut_machine:
  assumes "truthyS (get_machine self)" "plugins E (js_String (get_type self)) = Some T"
  shows "authorizePut E A self =
    (case fst (mapi_getMachine A (p_user self) (get_machine self)) of
       None \<Rightarrow> None
     | Some err \<Rightarrow>
         if me_httpCode err = Some 404 then
           (if runInGlobal T \<and> machine_exists A self \<and> user_is_operator A self then None
            else Some (InvalidArgumentError
                     ''Invalid 'machine': machine '%s' does not exist or is not owned by user '%s'.''))
         else Some (InternalError ''Internal error authorizing probe put.''))"
proof (cases "mapi_getMachine A (p_user self) (get_machine self)")
  case (Pair err machine)
  show ?thesis
  proof (cases err)
    case None
    with Pair assms show ?thesis by (simp add: authorizePut_def)
  next
    case (Some e)
    obtain oe ob where op: "isOperator A (p_user self) = (oe, ob)" by (cases "isOperator A (p_user self)")
    obtain xe xb where ex: "mapi_getMachine A (Some []) (get_machine self) = (xe, xb)"
      by (cases "mapi_getMachine A (Some []) (get_machine self)")
    from Pair Some assms op ex show ?thesis
      by (cases oe; cases ob; cases xb; cases "runInGlobal T")
        (simp_all add: authorizePut_def conditions3_def isRunInGlobalOrErr_def
          isExistingMachineOrErr_def userIsOperatorOrErr_def machine_exists_def
          user_is_operator_def)
  qed
qed

lemma authorizePut_server:
  assumes "\<not> truthyS (get_machine self)" "truthyS (get_server self)"
  shows "authorizePut E A self =
    (if fst (isOperator A (p_user self)) \<noteq> None then
       Some (InternalError ''Internal error authorizing probe put.'')
     else if \<not> snd (isOperator A (p_user self)) then
       Some (InvalidArgumentError
         ''Must be operator put a probe on a server (server=%s): user '%s' is not an operator.'')
     else if \<not> server_exists A self then
       Some (InvalidArgumentError '''server', %s, is invalid: no such server'')
     else None)"
proof -
  obtain oe ob where op: "isOperator A (p_user self) = (oe, ob)" by (cases "isOperator A (p_user self)")
  obtain xe xb where ex: "serverExists A (get_server self) = (xe, xb)"
    by (cases "serverExists A (get_server self)")
  from assms op ex show ?thesis
    by (simp add: authorizePut_def server_exists_def)
qed

lemma mentions_operator:
  "mentions ''Must be operator put a probe on a server (server=%s): user '%s' is not an operator.''
     ''operator''"
  by simp

text \<open>
  C2 (as amended). For a constructed probe, authorizePut succeeds exactly in three cases:
  the machine is set and the lookup of it for the probe's user answers without error; the
  server is set, the user is an operator and the server exists; the machine is set, the
  lookup for the user answers 404, the type declares \<^verbatim>\<open>runInGlobal\<close>, the machine exists
  and the user is an operator. Every other case fails: with InternalError when a lookup
  failed unexpectedly, with InvalidArgument (409) otherwise. A server probe of a user who
  is not an operator fails with InvalidArgument whose message mentions the operator.
\<close>

theorem authorizePut_cases:
  assumes "Probe E data = Inr self"
  shows "(authorizePut E A self = None \<longleftrightarrow>
            (truthyS (get_machine self) \<and> owns_machine A self)
          \<or> (truthyS (get_server self) \<and> user_is_operator A self \<and> server_exists A self)
          \<or> (truthyS (get_machine self) \<and> machine_not_owned A self
               \<and> declares_runInGlobal E self \<and> machine_exists A self
               \<and> user_is_operator A self))
       \<and> (\<forall>e. authorizePut E A self = Some e \<longrightarrow>
             (if lookup_failed A self
              then e = InternalError ''Internal error authorizing probe put.''
              else eclass e = InvalidArgumentC \<and> httpCode e = Some 409))
       \<and> (truthyS (get_server self) \<and> isOperator A (p_user self) = (None, False) \<longrightarrow>
             (\<exists>e. authorizePut E A self = Some e \<and> eclass e = InvalidArgumentC
                 \<and> mentions (message e) ''operator''))"
proof -
  from Probe_validated_raw[OF assms] obtain T
    where T: "plugins E (js_String (get_type self)) = Some T"
    unfolding get_type_def by blast
  have one: "truthyS (get_machine self) \<noteq> truthyS (get_server self)"
    using Probe_target(1)[OF assms] .
  show ?thesis
  proof (cases "truthyS (get_machine self)")
    case True
    with one have ns: "\<not> truthyS (get_server self)" by simp
    show ?thesis
      unfolding authorizePut_machine[OF True T]
      using True ns T
      by (cases "fst (mapi_getMachine A (p_user self) (get_machine self))")
        (auto simp: owns_machine_def machine_not_owned_def declares_runInGlobal_def
          lookup_failed_def)
  next
    case False
    with one have s: "truthyS (get_server self)" by simp
    obtain oe ob where op: "isOperator A (p_user self) = (oe, ob)"
      by (cases "isOperator A (p_user self)")
    show ?thesis
      unfolding authorizePut_server[OF False s]
      using False s op mentions_operator
      by (cases oe; cases ob) (auto simp: user_is_operator_def lookup_failed_def)
  qed
qed



lemma Probe_server_probe:
  "Probe example_env server_probe = Inr whistle_server_probe"
  by (simp add: probe_eval server_probe_def public_probe_def example_dn_def
      whistle_server_probe_def whistlelog_probe_def)

text \<open>
  C2, at the example probes: the owner's machine probe is authorized; the server probe of
  a user who is not an operator is refused with InvalidArgument.
\<close>

theorem authorizePut_cases_witness:
  "Probe example_env public_probe = Inr whistlelog_probe
   \<and> truthyS (get_machine whistlelog_probe) \<and> owns_machine owner_services whistlelog_probe
   \<and> authorizePut example_env owner_services whistlelog_probe = None
   \<and> Probe example_env server_probe = Inr whistle_server_probe
   \<and> truthyS (get_server whistle_server_probe)
   \<and> isOperator owner_services (p_user whistle_server_probe) = (None, False)
   \<and> (\<exists>e. authorizePut example_env owner_services whistle_server_probe = Some e
          \<and> eclass e = InvalidArgumentC \<and> mentions (message e) ''operator'')"
proof -
  have m: "truthyS (get_machine whistlelog_probe)" "owns_machine owner_services whistlelog_probe"
    by (simp_all add: get_machine_def whistlelog_probe_def truthyS_def uuid_nonempty
        owns_machine_def owner_services_def)
  have s: "truthyS (get_server whistle_server_probe)"
    "isOperator owner_services (p_user whistle_server_probe) = (None, False)"
    by (simp_all add: get_server_def whistle_server_probe_def truthyS_def uuid_nonempty
        owner_services_def)
  show ?thesis
    using authorizePut_cases[OF Probe_public_probe, of owner_services]
      authorizePut_cases[OF Probe_server_probe, of owner_services]
      m s Probe_public_probe Probe_server_probe
    by simp
qed

text \<open>
  C2 as stated fails: when the machine API answers the lookup with a 500, the put of a
  machine probe fails with InternalError, not with InvalidArgument.
\<close>

theorem authorizePut_mapi_error:
  "Probe example_env public_probe = Inr whistlelog_probe
   \<and> authorizePut example_env mapi_down whistlelog_probe
       = Some (InternalError ''Internal error authorizing probe put.'')
   \<and> eclass (InternalError ''Internal error authorizing probe put.'') \<noteq> InvalidArgumentC"
  by (simp add: Probe_public_probe authorizePut_def get_machine_def whistlelog_probe_def
      truthyS_def uuid_nonempty mapi_down_def owner_services_def)


section \<open>Properties of the event dispatch\<close>

text \<open>When every item is answered without error, the final callback is called once, without error.\<close>

lemma asyncForEach_items_answered:
  "\<forall>x \<in> set xs. fst (fn x) = Answered None \<Longrightarrow>
   asyncForEach_items fn xs (c, None, cbs) calls0 =
     (Done (cbs @ (if 0 < c \<and> c \<le> int (length xs) then [None] else [])),
      calls0 @ concat (map (\<lambda>x. snd (fn x)) xs))"
proof (induction xs arbitrary: c cbs calls0)
  case Nil
  then show ?case by simp
next
  case (Cons x xs)
  then have xs: "\<forall>x \<in> set xs. fst (fn x) = Answered None" by simp
  obtain calls where x: "fn x = (Answered None, calls)"
    using Cons.prems by (cases "fn x") simp
  show ?case
  proof (cases "c = 1")
    case True
    then show ?thesis using Cons.IH[OF xs, of 0 "cbs @ [None]" "calls0 @ calls"] x
      by (simp add: asyncForEach_callback_def)
  next
    case False
    then show ?thesis using Cons.IH[OF xs, of "c - 1" cbs "calls0 @ calls"] x
      by (auto simp: asyncForEach_callback_def)
  qed
qed

lemma asyncForEach_answered:
  assumes "\<forall>x \<in> set list. fst (fn x) = Answered None"
  shows "asyncForEach list fn = (Done [None], concat (map (\<lambda>x. snd (fn x)) list))"
proof (cases "list = []")
  case True
  then show ?thesis by (simp add: asyncForEach_def)
next
  case False
  from asyncForEach_items_answered[OF assms, of "int (length list)" "[]" "[]"] False
  show ?thesis by (simp add: asyncForEach_def)
qed

lemma getAndNotifyContact_answered:
  "calls_back app ev contactName \<Longrightarrow>
   fst (getAndNotifyContact app ev mon contactName) = Answered None"
  by (auto simp: calls_back_def getAndNotifyContact_def notifyContact_def Let_def
      split: sum.splits property.splits answer.splits)

lemma processEvent_found:
  assumes "Monitor_get app (ev_probe_monitor ev) (ev_probe_user ev) = Inr mon"
    and "list_all (calls_back app ev) (m_contacts mon)"
  shows "processEvent app ev =
           (Done [None],
            Debug ''App.processEvent: %o''
              # concat (map (\<lambda>x. snd (getAndNotifyContact app ev mon x)) (m_contacts mon)))"
proof -
  have "\<forall>x \<in> set (m_contacts mon). fst (getAndNotifyContact app ev mon x) = Answered None"
    using assms(2) by (simp add: list_all_iff getAndNotifyContact_answered)
  from asyncForEach_answered[OF this] assms(1)
  show ?thesis by (simp add: processEvent_def)
qed




text \<open>
  For an event whose monitor is found and whose contacts are all answered for,
  processEvent calls its callback exactly once and without an error, whatever the
  lookups and the plugins answer. Every contact of the monitor that resolves and under
  whose medium a plugin is loaded gets its \<^verbatim>\<open>notify\<close> call, also when other contacts of
  the list do not resolve or their notification fails. A contact that does not resolve,
  a medium without plugin and a failed notification are logged as warnings.
\<close>

lemma processEvent_delivers:
  assumes "Monitor_get app (ev_probe_monitor ev) (ev_probe_user ev) = Inr mon"
    and "list_all (calls_back app ev) (m_contacts mon)"
  shows "fst (processEvent app ev) = Done [None]
     \<and> (\<forall>name \<in> set (m_contacts mon). \<forall>cnt plugin.
          Contact_get app name (ev_probe_user ev) = Inr cnt
          \<and> notificationPlugins app (c_medium cnt) = Own plugin \<longrightarrow>
          Notify (c_medium cnt) (ev_probe_name ev) (c_data cnt) ''XXX message''
            \<in> set (snd (processEvent app ev)))
     \<and> (\<forall>name \<in> set (m_contacts mon). \<forall>e.
          Contact_get app name (ev_probe_user ev) = Inl e \<longrightarrow>
          Warn ''could not get contact '%s' (user '%s'): %s'' \<in> set (snd (processEvent app ev)))
     \<and> (\<forall>name \<in> set (m_contacts mon). \<forall>cnt e.
          Contact_get app name (ev_probe_user ev) = Inr cnt
          \<and> fst (notifyContact app (ev_probe_user ev) mon cnt ev) = Answered (Some e) \<longrightarrow>
          Warn ''could not notify contact: %s'' \<in> set (snd (processEvent app ev)))"
proof (intro conjI ballI allI impI)
  show "fst (processEvent app ev) = Done [None]"
    by (simp add: processEvent_found[OF assms])
next
  fix name cnt plugin
  assume "name \<in> set (m_contacts mon)"
    and "Contact_get app name (ev_probe_user ev) = Inr cnt
          \<and> notificationPlugins app (c_medium cnt) = Own plugin"
  then show "Notify (c_medium cnt) (ev_probe_name ev) (c_data cnt) ''XXX message''
            \<in> set (snd (processEvent app ev))"
    by (auto simp: processEvent_found[OF assms] getAndNotifyContact_def notifyContact_def
        Let_def split: answer.splits intro!: bexI[of _ name])
next
  fix name e
  assume "name \<in> set (m_contacts mon)" and "Contact_get app name (ev_probe_user ev) = Inl e"
  then show "Warn ''could not get contact '%s' (user '%s'): %s'' \<in> set (snd (processEvent app ev))"
    by (auto simp: processEvent_found[OF assms] getAndNotifyContact_def Let_def
        intro!: bexI[of _ name])
next
  fix name cnt e
  assume "name \<in> set (m_contacts mon)"
    and "Contact_get app name (ev_probe_user ev) = Inr cnt
          \<and> fst (notifyContact app (ev_probe_user ev) mon cnt ev) = Answered (Some e)"
  then show "Warn ''could not notify contact: %s'' \<in> set (snd (processEvent app ev))"
    by (auto simp: processEvent_found[OF assms] getAndNotifyContact_def Let_def
        split: prod.splits intro!: bexI[of _ name])
qed

text \<open>
  At the example dispatcher: the first contact of the monitor \<^verbatim>\<open>whistle\<close> does not
  resolve, the second does, and its plugin reports an error. The plugin is called and
  the event is processed without error.
\<close>

lemma processEvent_whistle:
  "processEvent example_dispatcher whistle_event
     = (Done [None],
        [Debug ''App.processEvent: %o'',
         Debug (''App.processEvent: notify contact '%s'' @ sq),
         Warn ''could not get contact '%s' (user '%s'): %s'',
         Debug (''App.processEvent: notify contact '%s'' @ sq),
         Notify ''email'' ''whistlelog'' ''alice@example.com'' ''XXX message'',
         Warn ''could not notify contact: %s''])"
  by (simp add: processEvent_def asyncForEach_def asyncForEach_callback_def
      getAndNotifyContact_def notifyContact_def notificationPlugins_def Let_def
      example_dispatcher_def whistle_event_def Object_prototype_names_def)

text \<open>
  C4. A monitor whose contacts are one with the medium \<^verbatim>\<open>constructor\<close>, under which no
  plugin is loaded, and a valid one by email. The lookup of the medium finds the
  property that every object inherits, the call of its \<^verbatim>\<open>notify\<close> throws a TypeError that
  nothing catches, and processEvent never calls its callback. With the contact first,
  the valid contact is not notified; with the contact last, it has been notified by
  then.
\<close>

theorem processEvent_inherited_medium:
  "processEvent example_dispatcher builtin_first_event
     = (Uncaught (TypeError ''plugin.notify is not a function''),
        [Debug ''App.processEvent: %o'',
         Debug (''App.processEvent: notify contact '%s'' @ sq)])
   \<and> processEvent example_dispatcher builtin_last_event
     = (Uncaught (TypeError ''plugin.notify is not a function''),
        [Debug ''App.processEvent: %o'',
         Debug (''App.processEvent: notify contact '%s'' @ sq),
         Notify ''email'' ''whistlelog'' ''alice@example.com'' ''XXX message'',
         Warn ''could not notify contact: %s'',
         Debug (''App.processEvent: notify contact '%s'' @ sq)])"
  by (simp add: processEvent_def asyncForEach_def asyncForEach_callback_def
      getAndNotifyContact_def notifyContact_def notificationPlugins_def Let_def
      example_dispatcher_def builtin_first_event_def builtin_last_event_def
      whistle_event_def Object_prototype_names_def)


section \<open>Properties of the relay endpoints\<close>

text \<open>
  C8 fails on the code for HEAD: when the md5 file of the target is absent
  (\<^verbatim>\<open>ENOENT\<close>), headAgentProbes answers 500 InternalError, not 200 with an empty list.
  The branch for the absent file is switched off by \<^verbatim>\<open>false &&\<close>.
\<close>

theorem headAgentProbes_absent:
  "headAgentProbes (\<lambda>path. ReadError ''ENOENT'') req
     = \<lparr>res_code = 500, res_headers = [], res_body = RestError ''InternalError''\<rparr>"
  by (simp add: headAgentProbes_def)

text \<open>The rest of C8 holds: GET for an absent file, and both endpoints for files that exist.\<close>

lemma listAgentProbes_absent:
  "listAgentProbes E (\<lambda>path. ReadError ''ENOENT'') req
     = Inr \<lparr>res_code = 200, res_headers = [], res_body = Json (JArr [])\<rparr>"
  by (simp add: listAgentProbes_def)

lemma headAgentProbes_present:
  assumes "readFile (path_resolve (r_dataDir req)
             (r_targetType req @ ''-'' @ r_targetUuid req @ ''.json.content-md5'')) = ReadData md5"
  shows "headAgentProbes readFile req
     = \<lparr>res_code = 200, res_headers = [(''Content-MD5'', md5)], res_body = Text []\<rparr>"
  using assms by (simp add: headAgentProbes_def)

lemma listAgentProbes_present:
  assumes "readFile (path_resolve (r_dataDir req)
             (r_targetType req @ ''-'' @ r_targetUuid req @ ''.json'')) = ReadData data"
    and "JSON_parse E (JStr data) = Some parsed"
  shows "listAgentProbes E readFile req
     = Inr \<lparr>res_code = 200, res_headers = [], res_body = Json parsed\<rparr>"
  using assms by (simp add: listAgentProbes_def)


section \<open>Properties of the model helpers\<close>

lemma new_calls_did: "new_calls st (did cs st) = cs"
  by (simp add: new_calls_def did_def)

lemma did_fields:
  "ufds (did cs st) = ufds st" "getCache (did cs st) = getCache st"
  "listCache (did cs st) = listCache st" "trace (did cs st) = trace st @ cs"
  by (simp_all add: did_def)

lemma did_did: "did cs (did bs st) = did (bs @ cs) st"
  by (simp add: did_def)

lemma did_update:
  "did cs (st\<lparr>getCache := g\<rparr>) = (did cs st)\<lparr>getCache := g\<rparr>"
  "did cs (st\<lparr>listCache := l\<rparr>) = (did cs st)\<lparr>listCache := l\<rparr>"
  "did cs (st\<lparr>ufds := u\<rparr>) = (did cs st)\<lparr>ufds := u\<rparr>"
  by (simp_all add: did_def)

lemma new_calls_update:
  "new_calls st (st'\<lparr>getCache := g\<rparr>) = new_calls st st'"
  "new_calls st (st'\<lparr>listCache := l\<rparr>) = new_calls st st'"
  "new_calls st (st'\<lparr>ufds := u\<rparr>) = new_calls st st'"
  by (simp_all add: new_calls_def)

lemmas state_simps =
  new_calls_did did_fields did_did did_update new_calls_update

text \<open>The catch handler, by what the module exports.\<close>

lemma log_invalid_exported:
  "RESTError R = Some cls \<Longrightarrow> log_invalid R e = Inr (logged_as cls e)"
  by (simp add: log_invalid_def instanceof_RESTError_def logged_as_def)

lemma log_invalid_not_exported:
  "RESTError R = None \<Longrightarrow> log_invalid R e = Inl instanceof_TypeError"
  by (simp add: log_invalid_def instanceof_RESTError_def instanceof_TypeError_def)

lemma log_invalid_is_log: "log_invalid R e = Inr c \<Longrightarrow> is_log c"
  by (auto simp: log_invalid_def split: sum.splits bool.splits)

lemma is_log_logged_as: "is_log (logged_as cls e)"
  by (simp add: logged_as_def)

lemma filter_is_log_logged_as: "filter is_log (map (logged_as cls) es) = map (logged_as cls) es"
  by (induction es) (simp_all add: is_log_logged_as)

text \<open>
  The loop of modelList. Where the class is exported, the entries that construct are
  collected and the others logged; where it is not, the first entry that does not
  construct ends the loop with the TypeError.
\<close>

lemma collect_instances_exported:
  "RESTError R = Some cls \<Longrightarrow>
   collect_instances R f ds instances logged =
     Inr (instances @ constructed f ds, logged @ map (logged_as cls) (rejected f ds))"
  by (induction ds arbitrary: instances logged)
    (auto simp: constructed_def rejected_def log_invalid_exported split: sum.splits)

lemma collect_instances_not_exported:
  "RESTError R = None \<Longrightarrow>
   collect_instances R f ds instances logged =
     (if rejected f ds = [] then Inr (instances @ constructed f ds, logged)
      else Inl instanceof_TypeError)"
  by (induction ds arbitrary: instances logged)
    (auto simp: constructed_def rejected_def log_invalid_not_exported split: sum.splits)

text \<open>
  A list operation for which the cache has no usable entry goes on to the search, after
  the cache was read and, if it held an entry, the entry was dropped with a warning.
\<close>

lemma modelList_asks_directory:
  assumes "\<not> list_cache_answers M (st :: ('u, 'd) state) parentDn"
  shows "\<exists>cs lc. modelList R M D st parentDn
               = modelList_search R M D ((did cs st)\<lparr>listCache := lc\<rparr>) parentDn
     \<and> filter is_log cs
         = (if listCache st (Model_name M @ ''List'', parentDn) = None then []
            else [LogWarn ''error in cached data (cacheScope='%s', cacheKey='%s'): %s''])"
proof -
  let ?scope = "Model_name M @ ''List''"
  let ?st = "did [CacheGet ?scope parentDn] st"
  show ?thesis
  proof (cases "listCache st (?scope, parentDn)")
    case None
    then have "modelList R M D st parentDn
                 = modelList_search R M D (?st\<lparr>listCache := listCache st\<rparr>) parentDn"
      by (simp add: state_simps modelList_def Let_def did_def)
    then show ?thesis using None
      by (intro exI[of _ "[CacheGet ?scope parentDn]"] exI[of _ "listCache st"]) simp
  next
    case (Some entry)
    with assms have "modelList R M D st parentDn
        = modelList_search R M D
            ((did [CacheGet ?scope parentDn,
                   LogWarn ''error in cached data (cacheScope='%s', cacheKey='%s'): %s'',
                   CacheDel ?scope parentDn] st)
               \<lparr>listCache := (listCache st)((?scope, parentDn) := None)\<rparr>) parentDn"
      by (cases entry)
        (auto simp: state_simps modelList_def Let_def list_cache_answers_def
           split: option.splits sum.splits)
    then show ?thesis using Some
      by (intro exI[of _ "[CacheGet ?scope parentDn,
                   LogWarn ''error in cached data (cacheScope='%s', cacheKey='%s'): %s'',
                   CacheDel ?scope parentDn]"]
            exI[of _ "(listCache st)((?scope, parentDn) := None)"]) simp
  qed
qed

text \<open>
  With a restify that exports \<^verbatim>\<open>RESTError\<close>, a list operation that asks the directory and
  gets entries back returns exactly the entries that construct, in the order of the
  directory; each entry that does not construct is logged (a warning for an error of the
  class, an error otherwise) and left out, and the request does not fail.
\<close>

lemma modelList_skips_invalid_exported:
  assumes "RESTError R = Some cls"
    and "\<not> list_cache_answers M (st :: ('u, 'd) state) parentDn"
    and "ufdsSearch D (ufds st) parentDn
           \<lparr>so_filter = Some (''(objectclass='' @ Model_objectclass M @ '')''),
            so_scope = ''sub''\<rparr> = Inr rawItems"
  shows "fst (modelList R M D st parentDn) = Done (Inr (constructed (Model_new M) rawItems))
     \<and> filter is_log (new_calls st (snd (modelList R M D st parentDn)))
         = (if listCache st (Model_name M @ ''List'', parentDn) = None then []
            else [LogWarn ''error in cached data (cacheScope='%s', cacheKey='%s'): %s''])
           @ map (logged_as cls) (rejected (Model_new M) rawItems)"
proof -
  from modelList_asks_directory[OF assms(2), of R D]
  obtain cs lc where m: "modelList R M D st parentDn
               = modelList_search R M D ((did cs st)\<lparr>listCache := lc\<rparr>) parentDn"
    and l: "filter is_log cs
         = (if listCache st (Model_name M @ ''List'', parentDn) = None then []
            else [LogWarn ''error in cached data (cacheScope='%s', cacheKey='%s'): %s''])"
    by blast
  show ?thesis
    unfolding m using assms(3) l
    by (simp add: state_simps modelList_search_def Let_def new_calls_def
        collect_instances_exported[OF assms(1)] cacheAndCallback_list_def
        filter_is_log_logged_as)
qed

text \<open>
  With a restify that does not export \<^verbatim>\<open>RESTError\<close>, the same list operation throws as
  soon as one entry does not construct: the callback is not called, nothing is
  cached for the parent DN by this request, and no entry is logged as invalid.
\<close>

lemma modelList_throws_not_exported:
  assumes "RESTError R = None"
    and "\<not> list_cache_answers M (st :: ('u, 'd) state) parentDn"
    and "ufdsSearch D (ufds st) parentDn
           \<lparr>so_filter = Some (''(objectclass='' @ Model_objectclass M @ '')''),
            so_scope = ''sub''\<rparr> = Inr rawItems"
    and "rejected (Model_new M) rawItems \<noteq> []"
  shows "fst (modelList R M D st parentDn) = Uncaught instanceof_TypeError
     \<and> filter is_cache_write (new_calls st (snd (modelList R M D st parentDn))) = []
     \<and> filter is_log (new_calls st (snd (modelList R M D st parentDn)))
         = (if listCache st (Model_name M @ ''List'', parentDn) = None then []
            else [LogWarn ''error in cached data (cacheScope='%s', cacheKey='%s'): %s''])"
proof -
  let ?scope = "Model_name M @ ''List''"
  let ?st = "did [CacheGet ?scope parentDn] st"
  let ?cs = "[CacheGet ?scope parentDn,
              LogWarn ''error in cached data (cacheScope='%s', cacheKey='%s'): %s'',
              CacheDel ?scope parentDn]"
  have thrown: "modelList_search R M D s parentDn
                  = (Uncaught instanceof_TypeError, did [UfdsSearch parentDn ''sub''] s)"
    if "ufds s = ufds st" for s :: "('u, 'd) state"
    using assms(3,4) that
    by (simp add: modelList_search_def Let_def state_simps
        collect_instances_not_exported[OF assms(1)])
  show ?thesis
  proof (cases "listCache st (?scope, parentDn)")
    case None
    then have m: "modelList R M D st parentDn = modelList_search R M D ?st parentDn"
      by (simp add: state_simps modelList_def Let_def)
    show ?thesis unfolding m using None
      by (simp add: thrown state_simps new_calls_def)
  next
    case (Some entry)
    with assms(2) have m: "modelList R M D st parentDn
        = modelList_search R M D
            ((did ?cs st)\<lparr>listCache := (listCache st)((?scope, parentDn) := None)\<rparr>) parentDn"
      by (cases entry)
        (auto simp: state_simps modelList_def Let_def list_cache_answers_def
           split: option.splits sum.splits)
    show ?thesis unfolding m using Some
      by (simp add: thrown state_simps new_calls_def)
  qed
qed

lemma Probe_corrupt_entry:
  "Probe example_env corrupt_entry =
     Inl (MissingParameterError ''must specify one of 'machine' or 'server' for a probe: %j'')"
  by (simp add: probe_eval corrupt_entry_def directory_entry_def)

lemma ProbeModel_fields:
  "Model_name (ProbeModel E) = ''Probe''"
  "Model_objectclass (ProbeModel E) = ''amonprobe''"
  "Model_new (ProbeModel E) = Probe E"
  by (simp_all add: ProbeModel_def Probe_objectclass_def)

lemmas probe_model_simps = ProbeModel_fields

lemma empty_state_caches:
  "getCache empty_state = Map.empty" "listCache empty_state = Map.empty" "trace empty_state = []"
  by (simp_all add: empty_state_def)

text \<open>
  The directory answers a list of probes with a corrupt entry (neither machine nor
  server) and a good one. With the class exported, the list holds the good one and one
  warning is logged.
\<close>

lemma modelList_corrupt_entry_exported:
  "modelList restify_0 (ProbeModel example_env) (directory_with [corrupt_entry, directory_entry])
       empty_state ''parent''
     = (Done (Inr [directory_probe]),
        (did [CacheGet ''ProbeList'' ''parent'', UfdsSearch ''parent'' ''sub'',
              LogWarn ''Ignoring invalid %s (dn='%s'): %s'', CacheSet ''ProbeList'' ''parent'']
           empty_state)
          \<lparr>listCache := [(''ProbeList'', ''parent'') \<mapsto> (None, Some [Model_serialize (ProbeModel example_env) directory_probe])]\<rparr>)"
  by (simp add: modelList_def modelList_search_def Let_def state_simps probe_model_simps
      empty_state_caches directory_with_def Probe_corrupt_entry Probe_directory_entry
      log_invalid_def instanceof_RESTError_def restify_0_def cacheAndCallback_list_def
      ProbeModel_def)

text \<open>
  C10. The same list of probes, with a restify that exports no \<^verbatim>\<open>RESTError\<close> (1.0 and
  later): the corrupt entry ends the request. The catch handler throws a TypeError, the
  callback of modelList is never called, so the good entry is not returned, and no
  warning is logged.
\<close>

theorem modelList_corrupt_entry_throws:
  "modelList restify_1 (ProbeModel example_env) (directory_with [corrupt_entry, directory_entry])
       empty_state ''parent''
     = (Uncaught (TypeError ''Right-hand side of instanceof is not callable''),
        did [CacheGet ''ProbeList'' ''parent'', UfdsSearch ''parent'' ''sub''] empty_state)"
  by (simp add: modelList_def modelList_search_def Let_def state_simps probe_model_simps
      empty_state_caches directory_with_def Probe_corrupt_entry Probe_directory_entry
      log_invalid_def instanceof_RESTError_def restify_1_def)


lemma modelGet_skipCache:
  "modelGet R M D st dn True = modelGet_search R M D st dn True"
  by (simp add: state_simps modelGet_def)

lemma modelGet_search_skip_found:
  "fst (modelGet_search R M D st dn True) = Done (Inr item) \<Longrightarrow>
   snd (modelGet_search R M D st dn True) = did [UfdsSearch dn ''base''] st"
  by (auto simp: state_simps modelGet_search_def Let_def cacheAndCallback_get_def
      split: sum.splits if_splits)

lemma modelGet_search_skip_error:
  "fst (modelGet_search R M D st dn True) = Done (Inl e) \<Longrightarrow>
   \<exists>logs. snd (modelGet_search R M D st dn True) = did (UfdsSearch dn ''base'' # logs) st
        \<and> list_all is_log logs"
  by (auto simp: state_simps modelGet_search_def Let_def cacheAndCallback_get_def
      log_invalid_is_log split: sum.splits if_splits)

lemma modelGet_search_skip_thrown:
  "fst (modelGet_search R M D st dn True) = Uncaught thrown \<Longrightarrow>
   snd (modelGet_search R M D st dn True) = did [UfdsSearch dn ''base''] st"
  by (auto simp: state_simps modelGet_search_def Let_def cacheAndCallback_get_def
      split: sum.splits if_splits)

lemma modelGet_search_skip_cache_free:
  "fst (modelGet_search R M D (st\<lparr>getCache := gc, listCache := lc\<rparr>) dn True)
     = fst (modelGet_search R M D st dn True)"
  by (auto simp: state_simps modelGet_search_def Let_def cacheAndCallback_get_def
      split: sum.splits if_splits)

text \<open>
  The steps of modelDelete. It first fetches the entity with the cache bypassed: the
  first call is the search of the directory, and what is fetched does not depend on what
  the cache holds. If the fetch throws, only the search has happened and the callback is
  not called. If the fetch answers with an error, that error is returned and only the
  search (and a log entry) has happened: no delete in the directory, no invalidation,
  directory and caches unchanged. If the fetch succeeds the directory delete follows; if
  that fails its error is returned and the caches are unchanged; only if it succeeds the
  cache entries of the entity (get, at its DN) and of its list (at the parent DN) are
  invalidated, as the last step.
\<close>

lemma modelDelete_steps:
  assumes "modelDelete R M D st dn = (r, st')"
  shows "(\<forall>gc lc. fst (modelGet R M D (st\<lparr>getCache := gc, listCache := lc\<rparr>) dn True)
                    = fst (modelGet R M D st dn True))
     \<and> (case fst (modelGet R M D st dn True) of
          Uncaught thrown \<Rightarrow>
            r = Uncaught thrown \<and> st' = did [UfdsSearch dn ''base''] st
        | Done (Inl getErr) \<Rightarrow>
            r = Done (Some getErr) \<and> ufds st' = ufds st
            \<and> getCache st' = getCache st \<and> listCache st' = listCache st
            \<and> (\<exists>logs. new_calls st st' = UfdsSearch dn ''base'' # logs \<and> list_all is_log logs)
        | Done (Inr item) \<Rightarrow>
            (case fst (ufdsDelete D (ufds st) dn) of
               Some delErr \<Rightarrow>
                 r = Done (Some delErr)
                 \<and> getCache st' = getCache st \<and> listCache st' = listCache st
                 \<and> new_calls st st' = [UfdsSearch dn ''base'', UfdsDelete dn]
             | None \<Rightarrow>
                 r = Done None
                 \<and> new_calls st st' =
                     [UfdsSearch dn ''base'', UfdsDelete dn,
                      CacheInvalidateDelete (Model_name M) (Model_dn M item)]
                 \<and> getCache st' =
                     (getCache st)((Model_name M @ ''Get'', Model_dn M item) := None)
                 \<and> listCache st' =
                     (listCache st)((Model_name M @ ''List'', Model_parentDn M item) := None)))"
proof (rule conjI)
  show "\<forall>gc lc. fst (modelGet R M D (st\<lparr>getCache := gc, listCache := lc\<rparr>) dn True)
                    = fst (modelGet R M D st dn True)"
    by (simp add: state_simps modelGet_skipCache modelGet_search_skip_cache_free)
next
  obtain g st1 where g: "modelGet_search R M D st dn True = (g, st1)"
    by (cases "modelGet_search R M D st dn True")
  show "case fst (modelGet R M D st dn True) of
          Uncaught thrown \<Rightarrow>
            r = Uncaught thrown \<and> st' = did [UfdsSearch dn ''base''] st
        | Done (Inl getErr) \<Rightarrow>
            r = Done (Some getErr) \<and> ufds st' = ufds st
            \<and> getCache st' = getCache st \<and> listCache st' = listCache st
            \<and> (\<exists>logs. new_calls st st' = UfdsSearch dn ''base'' # logs \<and> list_all is_log logs)
        | Done (Inr item) \<Rightarrow>
            (case fst (ufdsDelete D (ufds st) dn) of
               Some delErr \<Rightarrow>
                 r = Done (Some delErr)
                 \<and> getCache st' = getCache st \<and> listCache st' = listCache st
                 \<and> new_calls st st' = [UfdsSearch dn ''base'', UfdsDelete dn]
             | None \<Rightarrow>
                 r = Done None
                 \<and> new_calls st st' =
                     [UfdsSearch dn ''base'', UfdsDelete dn,
                      CacheInvalidateDelete (Model_name M) (Model_dn M item)]
                 \<and> getCache st' =
                     (getCache st)((Model_name M @ ''Get'', Model_dn M item) := None)
                 \<and> listCache st' =
                     (listCache st)((Model_name M @ ''List'', Model_parentDn M item) := None))"
  proof (cases g)
    case (Uncaught thrown)
    from modelGet_search_skip_thrown[of R M D st dn thrown] g Uncaught
    have s1: "st1 = did [UfdsSearch dn ''base''] st" by simp
    from assms g Uncaught have "r = Uncaught thrown" "st' = st1"
      by (simp_all add: modelDelete_def modelGet_skipCache)
    with s1 g Uncaught show ?thesis by (simp add: modelGet_skipCache)
  next
    case (Done res)
    show ?thesis
    proof (cases res)
      case (Inl getErr)
      from modelGet_search_skip_error[of R M D st dn getErr] g Done Inl obtain logs where
        l: "st1 = did (UfdsSearch dn ''base'' # logs) st" "list_all is_log logs"
        by (auto simp: state_simps)
      from assms g Done Inl have "r = Done (Some getErr)" "st' = st1"
        by (simp_all add: state_simps modelDelete_def modelGet_skipCache)
      with l g Done Inl show ?thesis
        by (simp add: state_simps modelGet_skipCache)
    next
      case (Inr item)
      from modelGet_search_skip_found[of R M D st dn item] g Done Inr
      have s1: "st1 = did [UfdsSearch dn ''base''] st" by (simp add: state_simps)
      obtain delErr u' where d: "ufdsDelete D (ufds st) dn = (delErr, u')"
        by (cases "ufdsDelete D (ufds st) dn")
      show ?thesis
      proof (cases delErr)
        case None
        from assms g Done Inr s1 d None have "r = Done None"
          "st' = cacheInvalidateDelete M (did [UfdsDelete dn] (st1\<lparr>ufds := u'\<rparr>)) item"
          by (simp_all add: state_simps modelDelete_def modelGet_skipCache Let_def)
        with g Done Inr s1 d None show ?thesis
          by (simp add: state_simps modelGet_skipCache cacheInvalidateDelete_def)
      next
        case (Some e)
        from assms g Done Inr s1 d Some have "r = Done (Some e)"
          "st' = did [UfdsDelete dn] (st1\<lparr>ufds := u'\<rparr>)"
          by (simp_all add: state_simps modelDelete_def modelGet_skipCache Let_def)
        with g Done Inr s1 d Some show ?thesis
          by (simp add: state_simps modelGet_skipCache)
      qed
    qed
  qed
qed

text \<open>
  With a restify that exports \<^verbatim>\<open>RESTError\<close> no fetch throws: modelDelete always calls
  back.
\<close>

lemma modelDelete_calls_back_exported:
  "RESTError R = Some cls \<Longrightarrow> \<exists>r. fst (modelDelete R M D st dn) = Done r"
  by (auto simp: modelDelete_def modelGet_skipCache modelGet_search_def Let_def
      cacheAndCallback_get_def log_invalid_exported split: sum.splits prod.splits option.splits)

lemma Model_dn_directory_probe:
  "Model_dn (ProbeModel example_env) directory_probe = example_dn"
  by (simp add: state_simps probe_model_simps ProbeModel_def directory_probe_def whistlelog_probe_def js_String_def)

text \<open>
  At the Probe model: against a directory that does not have the entry, the delete
  returns ResourceNotFound after the search alone; against a directory that has it, the
  search, the delete and the invalidation follow each other; against a directory whose
  entry is corrupt, with the class exported, the delete returns InternalError after the
  search and a warning.
\<close>

lemma modelDelete_examples:
  "modelDelete R (ProbeModel example_env) (directory_failing no_such_object) empty_state example_dn
     = (Done (Some (ResourceNotFoundError ''not found'')),
        did [UfdsSearch example_dn ''base''] empty_state)"
  "modelDelete R (ProbeModel example_env) (directory_with [directory_entry]) empty_state example_dn
     = (Done None,
        did [UfdsSearch example_dn ''base'', UfdsDelete example_dn,
             CacheInvalidateDelete ''Probe'' example_dn] empty_state)"
  "modelDelete restify_0 (ProbeModel example_env) (directory_with [corrupt_entry]) empty_state
       example_dn
     = (Done (Some (InternalError ''invalid entry'')),
        did [UfdsSearch example_dn ''base'', LogWarn ''Ignoring invalid %s (dn='%s'): %s'']
          empty_state)"
  by (simp_all add: modelDelete_def modelGet_skipCache modelGet_search_def Let_def state_simps
      probe_model_simps empty_state_caches directory_failing_def directory_with_def
      no_such_object_def cacheAndCallback_get_def Probe_directory_entry Probe_corrupt_entry
      Model_dn_directory_probe cacheInvalidateDelete_def log_invalid_def
      instanceof_RESTError_def restify_0_def)

text \<open>
  C9. A delete of a probe whose directory entry is corrupt (neither machine nor server),
  with a restify that exports no \<^verbatim>\<open>RESTError\<close> (1.0 and later): the fetch fails, and its
  catch handler throws a TypeError. No delete is issued and nothing is invalidated, but
  no error is returned either: the callback of modelDelete is never called.
\<close>

theorem modelDelete_corrupt_entry_throws:
  "modelDelete restify_1 (ProbeModel example_env) (directory_with [corrupt_entry]) empty_state
       example_dn
     = (Uncaught (TypeError ''Right-hand side of instanceof is not callable''),
        did [UfdsSearch example_dn ''base''] empty_state)"
  by (simp add: modelDelete_def modelGet_skipCache modelGet_search_def Let_def state_simps
      probe_model_simps directory_with_def Probe_corrupt_entry log_invalid_def
      instanceof_RESTError_def restify_1_def)


lemma modelGet_miss:
  "getCache st (Model_name M @ ''Get'', dn) = None \<Longrightarrow>
   modelGet R M D st dn False
     = modelGet_search R M D (did [CacheGet (Model_name M @ ''Get'') dn] st) dn False"
  by (simp add: state_simps modelGet_def Let_def)

lemma modelList_miss:
  "listCache st (Model_name M @ ''List'', parentDn) = None \<Longrightarrow>
   modelList R M D st parentDn
     = modelList_search R M D (did [CacheGet (Model_name M @ ''List'') parentDn] st) parentDn"
  by (simp add: state_simps modelList_def Let_def)

lemma modelGet_search_error:
  assumes "ufdsSearch D (ufds st) dn \<lparr>so_filter = None, so_scope = ''base''\<rparr> = Inl err"
  shows "modelGet_search R M D st dn skipCache =
     (if httpCode err = Some 503 then (Done (Inl err), did [UfdsSearch dn ''base''] st)
      else cacheAndCallback_get M skipCache dn (did [UfdsSearch dn ''base''] st)
             (Inl (reported err)))"
  using assms by (simp add: state_simps modelGet_search_def Let_def reported_def)

lemma modelGet_search_entries_error:
  assumes "ufdsSearch D (ufds st) dn \<lparr>so_filter = None, so_scope = ''base''\<rparr> = Inr entries"
    and "fst (modelGet_search R M D st dn skipCache) = Done (Inl e)"
  shows "eclass e = InternalErrorC"
    and "getCache (snd (modelGet_search R M D st dn skipCache)) = getCache st"
    and "listCache (snd (modelGet_search R M D st dn skipCache)) = listCache st"
    and "ufds (snd (modelGet_search R M D st dn skipCache)) = ufds st"
    and "\<exists>l. trace (snd (modelGet_search R M D st dn skipCache))
               = trace st @ [UfdsSearch dn ''base'', l] \<and> is_log l"
  using assms
  by (auto simp: state_simps modelGet_search_def Let_def cacheAndCallback_get_def
      log_invalid_is_log split: if_splits sum.splits)

lemma modelList_search_error:
  assumes "ufdsSearch D (ufds st) parentDn
             \<lparr>so_filter = Some (''(objectclass='' @ Model_objectclass M @ '')''),
              so_scope = ''sub''\<rparr> = Inl err"
  shows "modelList_search R M D st parentDn =
     (if httpCode err = Some 503 then (Done (Inl err), did [UfdsSearch parentDn ''sub''] st)
      else cacheAndCallback_list M parentDn (did [UfdsSearch parentDn ''sub''] st) (Inl err))"
  using assms by (simp add: state_simps modelList_search_def Let_def)

text \<open>
  Get, asking the directory because the cache has no entry: an error of the directory
  with code 503 is returned and nothing is written to the cache; any other error of the
  directory is returned (no such object as ResourceNotFound) and stored as a negative
  entry under the key.
\<close>

lemma modelGet_directory_error:
  assumes "getCache st (Model_name M @ ''Get'', dn) = None"
    and "ufdsSearch D (ufds st) dn \<lparr>so_filter = None, so_scope = ''base''\<rparr> = Inl err"
  shows "if httpCode err = Some 503
       then fst (modelGet R M D st dn False) = Done (Inl err)
            \<and> getCache (snd (modelGet R M D st dn False)) = getCache st
            \<and> listCache (snd (modelGet R M D st dn False)) = listCache st
            \<and> filter is_cache_write (new_calls st (snd (modelGet R M D st dn False))) = []
       else fst (modelGet R M D st dn False) = Done (Inl (reported err))
            \<and> getCache (snd (modelGet R M D st dn False))
                = (getCache st)((Model_name M @ ''Get'', dn) \<mapsto> (Some (reported err), None))"
proof -
  let ?st = "did [CacheGet (Model_name M @ ''Get'') dn] st"
  from assms have s: "ufdsSearch D (ufds ?st) dn \<lparr>so_filter = None, so_scope = ''base''\<rparr> = Inl err"
    by (simp add: state_simps)
  show ?thesis
    using assms modelGet_miss[of st M dn R D]
    by (simp add: state_simps modelGet_search_error[OF s] cacheAndCallback_get_def)
qed

text \<open>
  The InternalError that get answers with of its own, for an entry that does not
  construct or for a number of entries other than one, is returned and not stored.
\<close>

lemma modelGet_internal_error_not_cached:
  assumes "getCache st (Model_name M @ ''Get'', dn) = None"
    and "ufdsSearch D (ufds st) dn \<lparr>so_filter = None, so_scope = ''base''\<rparr> = Inr entries"
    and "fst (modelGet R M D st dn False) = Done (Inl e)"
  shows "eclass e = InternalErrorC
        \<and> getCache (snd (modelGet R M D st dn False)) = getCache st
        \<and> listCache (snd (modelGet R M D st dn False)) = listCache st
        \<and> filter is_cache_write (new_calls st (snd (modelGet R M D st dn False))) = []"
proof -
  let ?st = "did [CacheGet (Model_name M @ ''Get'') dn] st"
  from assms have s: "ufdsSearch D (ufds ?st) dn \<lparr>so_filter = None, so_scope = ''base''\<rparr> = Inr entries"
    by (simp add: state_simps)
  from assms have f: "fst (modelGet_search R M D ?st dn False) = Done (Inl e)"
    using modelGet_miss[OF assms(1), of R D] by (simp add: state_simps)
  from modelGet_search_entries_error(5)[OF s f] obtain l where
    l: "trace (snd (modelGet_search R M D ?st dn False))
          = trace st @ [CacheGet (Model_name M @ ''Get'') dn, UfdsSearch dn ''base'', l]"
      "is_log l"
    by (auto simp: state_simps)
  have w: "\<not> is_cache_write l" using l(2) by (cases l) simp_all
  show ?thesis
    using modelGet_search_entries_error(1-3)[OF s f] l(1) w
    by (simp add: state_simps modelGet_miss[OF assms(1)] new_calls_def)
qed

text \<open>
  List, asking the directory because the cache has no entry: an error of the directory
  is returned; with code 503 nothing is written to the cache, any other error is stored
  as a negative entry under the parent DN.
\<close>

lemma modelList_directory_error:
  assumes "listCache st (Model_name M @ ''List'', parentDn) = None"
    and "ufdsSearch D (ufds st) parentDn
           \<lparr>so_filter = Some (''(objectclass='' @ Model_objectclass M @ '')''),
            so_scope = ''sub''\<rparr> = Inl lerr"
  shows "fst (modelList R M D st parentDn) = Done (Inl lerr)
      \<and> (if httpCode lerr = Some 503
         then getCache (snd (modelList R M D st parentDn)) = getCache st
              \<and> listCache (snd (modelList R M D st parentDn)) = listCache st
              \<and> filter is_cache_write (new_calls st (snd (modelList R M D st parentDn))) = []
         else listCache (snd (modelList R M D st parentDn))
                = (listCache st)((Model_name M @ ''List'', parentDn) \<mapsto> (Some lerr, None)))"
proof -
  let ?st = "did [CacheGet (Model_name M @ ''List'') parentDn] st"
  from assms have s: "ufdsSearch D (ufds ?st) parentDn
           \<lparr>so_filter = Some (''(objectclass='' @ Model_objectclass M @ '')''),
            so_scope = ''sub''\<rparr> = Inl lerr"
    by (simp add: state_simps)
  show ?thesis
    using assms modelList_miss[of st M parentDn R D]
    by (simp add: state_simps modelList_search_error[OF s] cacheAndCallback_list_def)
qed

lemmas example_simps = state_simps probe_model_simps empty_state_caches

text \<open>
  At the Probe model: an unavailable directory (503) is answered by get and by list
  without a write to the cache; a missing entry is cached as ResourceNotFound; two
  entries under one DN are answered with an InternalError that is not cached.
\<close>

lemma modelGet_examples:
  "modelGet R (ProbeModel example_env) (directory_failing unavailable) empty_state example_dn False
     = (Done (Inl unavailable),
        did [CacheGet ''ProbeGet'' example_dn, UfdsSearch example_dn ''base''] empty_state)"
  "modelGet R (ProbeModel example_env) (directory_failing no_such_object) empty_state example_dn
       False
     = (Done (Inl (ResourceNotFoundError ''not found'')),
        (did [CacheGet ''ProbeGet'' example_dn, UfdsSearch example_dn ''base'',
              CacheSet ''ProbeGet'' example_dn] empty_state)
          \<lparr>getCache := [(''ProbeGet'', example_dn)
                          \<mapsto> (Some (ResourceNotFoundError ''not found''), None)]\<rparr>)"
  "modelGet R (ProbeModel example_env) (directory_with [directory_entry, directory_entry])
       empty_state example_dn False
     = (Done (Inl (InternalError ''conflicting entries'')),
        did [CacheGet ''ProbeGet'' example_dn, UfdsSearch example_dn ''base'',
             LogError ''multiple hits in UFDS for one dn''] empty_state)"
  by (simp_all add: example_simps modelGet_miss modelGet_search_def Let_def
      directory_failing_def directory_with_def unavailable_def no_such_object_def
      cacheAndCallback_get_def)

lemma modelList_examples:
  "modelList R (ProbeModel example_env) (directory_failing unavailable) empty_state ''parent''
     = (Done (Inl unavailable),
        did [CacheGet ''ProbeList'' ''parent'', UfdsSearch ''parent'' ''sub''] empty_state)"
  "modelList R (ProbeModel example_env) (directory_failing no_such_object) empty_state ''parent''
     = (Done (Inl no_such_object),
        (did [CacheGet ''ProbeList'' ''parent'', UfdsSearch ''parent'' ''sub'',
              CacheSet ''ProbeList'' ''parent''] empty_state)
          \<lparr>listCache := [(''ProbeList'', ''parent'') \<mapsto> (Some no_such_object, None)]\<rparr>)"
  by (simp_all add: example_simps modelList_miss modelList_search_def Let_def
      directory_failing_def unavailable_def no_such_object_def cacheAndCallback_list_def)

lemma VALID_LOGIN_alice: "VALID_LOGIN_CHARS_test ''alice''"
  by (simp add: VALID_LOGIN_CHARS_test_def is_letter_def)

text \<open>
  The account lookup stores every error of the search as a negative entry, whatever its
  code.
\<close>

lemma accountFromLogin_error_cached:
  assumes "accountCache login = None"
    and "accountFromLogin search accountCache login = Inr ((Some e, acct), cache')"
  shows "cache' = accountCache(login \<mapsto> (Some e, None))"
  using assms
  by (auto simp: accountFromLogin_def Let_def split: if_splits ldap_result.splits list.splits)

lemma accountFromLogin_search_error:
  "accountFromLogin (\<lambda>base flt. ResultError err) Map.empty ''alice''
     = Inr ((Some err, None), [''alice'' \<mapsto> (Some err, None)])"
  by (simp add: accountFromLogin_def VALID_LOGIN_alice)

text \<open>
  C5. The account lookup while the directory is unavailable: the 503 is written to the
  account cache as a negative entry, where get and list return a 503 without caching it.
  The next lookup of the login is answered with the cached 503, also when the directory
  has the account again: the outage is not retried.
\<close>

theorem accountFromLogin_caches_unavailable:
  "httpCode unavailable = Some 503
   \<and> accountFromLogin (\<lambda>base flt. ResultError unavailable) Map.empty ''alice''
       = Inr ((Some unavailable, None :: unit option),
              [''alice'' \<mapsto> (Some unavailable, None)])
   \<and> accountFromLogin (\<lambda>base flt. ResultEnd 0 [()])
         [''alice'' \<mapsto> (Some unavailable, None)] ''alice''
       = Inr ((Some unavailable, None), [''alice'' \<mapsto> (Some unavailable, None)])"
  by (simp add: accountFromLogin_def VALID_LOGIN_alice unavailable_def)

end
